theory Spec2Isabelle
  imports Main "HOL-Library.AList"
begin

section \<open>ADC wire data\<close>

text \<open>
  The hub code (package \<open>hub\<close>) works on values of the \<open>adc\<close> package: session
  identifiers, client identifiers, feature sets, user records, messages and packets.
  Only their equality and the fields the hub reads matter here, so identifiers are
  plain values: a SID is a number, a CID and a PID are byte strings.
\<close>

type_synonym SID = nat
type_synonym CID = string
type_synonym PID = string
type_synonym Feature = string

text \<open>
  A \<open>net.Addr\<close> of Go's standard library, as a connection over TCP has it: the IP
  address and the port. Its \<open>String()\<close> joins the two with a colon, the address in
  brackets when it has a colon itself (\<open>10.0.0.7:4111\<close>, \<open>[::1]:4111\<close>).
\<close>

record Addr =
  IP :: string
  Port :: string

definition Addr_String :: "Addr \<Rightarrow> string" where
  "Addr_String a =
     (if CHR '':'' \<in> set (IP a) then ''['' @ IP a @ '']'' else IP a) @ '':'' @ Port a"

text \<open>\<open>adc.ModFeatures\<close> is \<open>map[Feature]bool\<close>.\<close>

type_synonym ModFeatures = "Feature \<rightharpoonup> bool"

definition FeaBASE :: Feature where "FeaBASE = ''BASE''"
definition FeaBAS0 :: Feature where "FeaBAS0 = ''BAS0''"
definition FeaTIGR :: Feature where "FeaTIGR = ''TIGR''"
definition FeaPING :: Feature where "FeaPING = ''PING''"

text \<open>
  Modelled from the spec: \<open>ModFeatures.Intersect\<close> and \<open>ModFeatures.IsSet\<close> belong to
  the \<open>adc\<close> package, which is not among the sources. The spec has the hub
  "intersect client features with the hub's advertised set" and then ask whether a
  feature "is present": the intersection keeps the features switched on in both maps,
  and a feature is set when the map has an entry for it.
\<close>

definition Intersect :: "ModFeatures \<Rightarrow> ModFeatures \<Rightarrow> ModFeatures" where
  "Intersect f f2 = (\<lambda>k. if f k = Some True \<and> f2 k = Some True then Some True else None)"

definition IsSet :: "ModFeatures \<Rightarrow> Feature \<Rightarrow> bool" where
  "IsSet f k = (f k \<noteq> None)"

text \<open>
  \<open>adc.User\<close>, with the fields the hub reads or writes. \<open>Pid\<close> is a pointer in the
  source (\<open>u.Pid = nil\<close>), hence an option.
\<close>

record User =
  Id' :: CID
  Pid :: "PID option"
  Name :: string
  Ip4 :: string
  Application :: string
  Version :: string

datatype Severity = Success | Recoverable | Fatal

text \<open>
  The errors the hub code returns. Errors that come out of the connection (a failed
  read, write or flush) are \<open>ErrTransport\<close>, \<open>ErrDeadline\<close> or \<open>EOF\<close>; an error of
  \<open>adc.Unmarshal\<close> or of \<open>Decode\<close> is \<open>ErrUnmarshal\<close>. \<open>ErrExpectedHub\<close> and
  \<open>ErrExpectedBroadcast\<close> carry the packet as \<open>fmt\<close> prints it with \<open>%#v\<close>,
  \<open>ErrExpectedSupport\<close> and \<open>ErrExpectedUserInfo\<close> the command name.
\<close>

datatype error =
    EOF
  | ErrTransport string
  | ErrDeadline
  | ErrUnmarshal string
  | ErrExpectedHub string
  | ErrExpectedSupport string
  | ErrNoBASE
  | ErrNoTIGR
  | ErrExpectedBroadcast string
  | ErrExpectedUserInfo string
  | ErrInvalidPid
  | ErrInvalidNick
  | errNickTaken
  | ErrCIDTaken
  | ErrMalformedBroadcast
  | ErrMalformedEcho
  | ErrMalformedDirect

text \<open>
  \<open>err.Error()\<close>, the text that \<open>sendError\<close> puts into the status message. The texts
  of the errors made in the hub code are those of the source. Modelled from the spec:
  \<open>errNickTaken\<close> is declared outside the sources at hand; the spec calls it
  "nick taken".
\<close>

fun Error :: "error \<Rightarrow> string" where
  "Error EOF = ''EOF''"
| "Error (ErrTransport s) = s"
| "Error ErrDeadline = ''i/o timeout''"
| "Error (ErrUnmarshal s) = s"
| "Error (ErrExpectedHub p) = ''expected hub messagge, got: '' @ p"
| "Error (ErrExpectedSupport n) = ''expected support message, got: '' @ n"
| "Error ErrNoBASE = ''client does not support BASE''"
| "Error ErrNoTIGR = ''client does not support TIGR''"
| "Error (ErrExpectedBroadcast p) = ''expected user info broadcast, got '' @ p"
| "Error (ErrExpectedUserInfo n) = ''expected user info message, got '' @ n"
| "Error ErrInvalidPid = ''invalid pid supplied''"
| "Error ErrInvalidNick = ''invalid nick''"
| "Error errNickTaken = ''nick taken''"
| "Error ErrCIDTaken = ''CID taken''"
| "Error ErrMalformedBroadcast = ''malformed broadcast''"
| "Error ErrMalformedEcho = ''malformed echo packet''"
| "Error ErrMalformedDirect = ''malformed direct packet''"

text \<open>The messages the hub writes: \<open>adc.Supported\<close>, \<open>adc.SIDAssign\<close>, \<open>adc.HubInfo\<close>
  (name, version, description), \<open>adc.Status\<close> (severity, code, text), \<open>adc.User\<close>,
  \<open>adc.Disconnect\<close> and \<open>adc.ChatMessage\<close>.\<close>

datatype Message =
    Supported ModFeatures
  | SIDAssign SID
  | HubInfo string string string
  | Status Severity int string
  | UserMsg User
  | Disconnect SID
  | ChatMessage string

text \<open>
  The packets of \<open>adc\<close>: each has the command name and the undecoded body; a
  broadcast carries the sender's SID (\<open>ID\<close>), a direct and an echo packet the sender's
  and the target's (\<open>ID\<close>, \<open>Targ\<close>). \<open>OtherPacket\<close> stands for the remaining kinds
  (client, feature, UDP), which the hub code never names.
\<close>

datatype Packet =
    InfoPacket string string
  | HubPacket string string
  | BroadcastPacket string SID string
  | DirectPacket string SID SID string
  | EchoPacket string SID SID string
  | OtherPacket string string

text \<open>\<open>(adc.Supported{}).Cmd()\<close> and \<open>(adc.User{}).Cmd()\<close>: the ADC command names
  (Modelled from the spec: the \<open>Cmd\<close> methods are in the \<open>adc\<close> package; the spec
  names the commands \<open>SUP\<close> and \<open>INF\<close>).\<close>

definition Supported_Cmd :: string where "Supported_Cmd = ''SUP''"
definition User_Cmd :: string where "User_Cmd = ''INF''"

text \<open>
  What the hub code calls in the \<open>adc\<close> and \<open>tiger\<close> packages and cannot be read in
  the sources: the Tiger hash of a PID (\<open>u.Pid.Hash()\<close>, called on the pointer), the
  Tiger hash of a byte string, the decoders of message bodies and \<open>Decode\<close> of a
  broadcast packet; and how \<open>fmt\<close> prints a packet with \<open>%#v\<close>. They are parameters
  of the model.
\<close>

record externals =
  Hash :: "PID option \<Rightarrow> CID"
  HashBytes :: "string \<Rightarrow> CID"
  UnmarshalSupported :: "string \<Rightarrow> error + ModFeatures"
  UnmarshalUser :: "string \<Rightarrow> error + User"
  Decode :: "Packet \<Rightarrow> error + Message"
  GoSyntax :: "Packet \<Rightarrow> string"

section \<open>Connections\<close>

text \<open>
  Modelled from the spec: \<open>adc.Conn\<close> (the spec's WireConn) is not among the sources.
  A connection is known to the hub by what its calls return, so its state is a script
  and a log: \<open>inp\<close> is what the successive reads will return, \<open>wres\<close> what the
  successive writes and flushes will return (\<open>None\<close> is Go's \<open>nil\<close>, \<open>Some s\<close> the
  transport's error \<open>ErrTransport s\<close>; once the script is used up every write succeeds), \<open>out\<close> the calls made so far with their
  results, \<open>remote\<close> the remote address.
\<close>

datatype WireOp =
    OpWritePacket Packet
  | OpWriteInfoMsg Message
  | OpWriteBroadcast SID Message
  | OpWriteDirect SID SID Message
  | OpFlush

record Conn =
  inp :: "(error + Packet) list"
  wres :: "string option list"
  out :: "(WireOp \<times> error option) list"
  remote :: Addr

definition nextRes :: "Conn \<Rightarrow> error option" where
  "nextRes c = (case wres c of [] \<Rightarrow> None | r # _ \<Rightarrow> map_option ErrTransport r)"

definition perform :: "WireOp \<Rightarrow> Conn \<Rightarrow> Conn" where
  "perform op c = c\<lparr>wres := tl (wres c), out := out c @ [(op, nextRes c)]\<rparr>"

section \<open>Peers and the hub\<close>

text \<open>
  Peers and connections are shared through pointers: the registry, the snapshots and
  the goroutines all hold the same \<open>*adcPeer\<close>. The model keeps one store for each
  pointer type, indexed by reference. A value of the interface \<open>Peer\<close> is its dynamic
  type together with the pointer; the type switch \<open>peer.(*adcPeer)\<close> is a case
  distinction on it.
\<close>

type_synonym aref = nat
type_synonym cref = nat
type_synonym nref = nat

datatype Peer = AdcPeer aref | NmdcPeer nref

text \<open>\<open>adcPeer\<close>, with the fields \<open>addr\<close> and \<open>sid\<close> of the embedded \<open>BasePeer\<close> (its
  \<open>hub\<close> field is the one hub of the model).\<close>

record adcPeer =
  sid :: SID
  addr :: Addr
  conn :: cref
  fea :: ModFeatures
  closed :: bool
  user :: User

text \<open>
  Modelled from the spec: the peers of the sibling protocol are not among the sources.
  The hub code calls \<open>SID\<close>, \<open>Name\<close>, \<open>RemoteAddr\<close> and \<open>Software\<close> on them, and
  \<open>ChatMsg\<close> through \<open>broadcastChat\<close>; \<open>chat\<close> logs the chat messages delivered.
\<close>

record nmdcPeer =
  nsid :: SID
  nname :: string
  naddr :: Addr
  napp :: string
  nvers :: string
  chat :: "(Peer \<times> string) list"

text \<open>\<open>h.peers\<close>: the two reservation sets and the three indices. A Go map with
  values is an association list read with \<open>map_of\<close> and written with \<open>AList.update\<close>
  and \<open>AList.delete\<close>, so that the peers can be listed.\<close>

record peersReg =
  logging :: "string set"
  loggingCID :: "CID set"
  bySID :: "(SID \<times> Peer) list"
  byCID :: "(CID \<times> Peer) list"
  byName :: "(string \<times> Peer) list"

datatype Task =
    GoBroadcast Packet Peer "Peer list option"
  | GoDirect Packet

text \<open>
  The state: the hub's fields (\<open>info\<close> as name, version and description, \<open>peers\<close>,
  and the SID counter), the three stores, and what the concurrency of the source
  leaves behind:
  \<^item> \<open>sched\<close>: the other connections change the registry whenever this one does not
    hold the lock, and this one sees the change when it next takes the lock. Each
    \<open>Lock\<close> or \<open>RLock\<close> takes the next function of \<open>sched\<close> and applies it to the
    registry; an empty \<open>sched\<close> is a hub with no other activity;
  \<^item> \<open>released\<close>: the registry as it was at each \<open>Unlock\<close> of the write lock, that
    is, every state of the registry that this connection has let any other see;
  \<^item> \<open>goroutines\<close>: the calls started with \<open>go\<close>, in order;
  \<^item> \<open>logged\<close>: the packets printed by \<open>log.Printf\<close> in the serving loop, and
    \<open>logErrs\<close> the errors printed by \<open>adcBroadcast\<close>.
\<close>

record hub =
  infoName :: string
  infoVersion :: string
  infoDesc :: string
  peers :: peersReg
  lastSID :: nat
  adcPeers :: "aref \<Rightarrow> adcPeer"
  nmdcPeers :: "nref \<Rightarrow> nmdcPeer"
  conns :: "cref \<Rightarrow> Conn"
  allocated :: aref
  sched :: "(peersReg \<Rightarrow> peersReg) list"
  released :: "peersReg list"
  goroutines :: "Task list"
  logged :: "(SID \<times> Packet) list"
  logErrs :: "error list"

subsection \<open>Calls on a connection\<close>

definition connDo :: "cref \<Rightarrow> WireOp \<Rightarrow> hub \<Rightarrow> error option \<times> hub" where
  "connDo c op h = (nextRes (conns h c), h\<lparr>conns := (conns h)(c := perform op (conns h c))\<rparr>)"

definition WritePacket :: "cref \<Rightarrow> Packet \<Rightarrow> hub \<Rightarrow> error option \<times> hub" where
  "WritePacket c p = connDo c (OpWritePacket p)"

definition WriteInfoMsg :: "cref \<Rightarrow> Message \<Rightarrow> hub \<Rightarrow> error option \<times> hub" where
  "WriteInfoMsg c m = connDo c (OpWriteInfoMsg m)"

definition WriteBroadcast :: "cref \<Rightarrow> SID \<Rightarrow> Message \<Rightarrow> hub \<Rightarrow> error option \<times> hub" where
  "WriteBroadcast c s m = connDo c (OpWriteBroadcast s m)"

definition WriteDirect :: "cref \<Rightarrow> SID \<Rightarrow> SID \<Rightarrow> Message \<Rightarrow> hub \<Rightarrow> error option \<times> hub" where
  "WriteDirect c s t m = connDo c (OpWriteDirect s t m)"

definition Flush :: "cref \<Rightarrow> hub \<Rightarrow> error option \<times> hub" where
  "Flush c = connDo c OpFlush"

text \<open>
  \<open>ReadPacket(deadline)\<close> of the handshake: the next scripted result; when the client
  sends nothing more, the deadline passes and the read fails.
\<close>

definition ReadPacketDeadline :: "cref \<Rightarrow> hub \<Rightarrow> (error + Packet) \<times> hub" where
  "ReadPacketDeadline c h =
     (case inp (conns h c) of
        [] \<Rightarrow> (Inl ErrDeadline, h)
      | r # rs \<Rightarrow> (r, h\<lparr>conns := (conns h)(c := (conns h c)\<lparr>inp := rs\<rparr>)\<rparr>))"

text \<open>
  \<open>ReadPacket(time.Time{})\<close> of the serving loop has no deadline: when the client
  sends nothing more the call does not return, which is \<open>None\<close>.
\<close>

definition ReadPacket :: "cref \<Rightarrow> hub \<Rightarrow> ((error + Packet) \<times> hub) option" where
  "ReadPacket c h =
     (case inp (conns h c) of
        [] \<Rightarrow> None
      | r # rs \<Rightarrow> Some (r, h\<lparr>conns := (conns h)(c := (conns h c)\<lparr>inp := rs\<rparr>)\<rparr>))"

subsection \<open>The registry lock\<close>

definition Lock :: "hub \<Rightarrow> hub" where
  "Lock h = (case sched h of [] \<Rightarrow> h | f # fs \<Rightarrow> h\<lparr>peers := f (peers h), sched := fs\<rparr>)"

definition Unlock :: "hub \<Rightarrow> hub" where
  "Unlock h = h\<lparr>released := released h @ [peers h]\<rparr>"

definition RLock :: "hub \<Rightarrow> hub" where
  "RLock h = Lock h"

definition RUnlock :: "hub \<Rightarrow> hub" where
  "RUnlock h = h"

text \<open>
  Modelled from the spec: \<open>listPeers\<close>, \<open>Peers\<close>, \<open>bySID\<close> and \<open>nextSID\<close> are methods
  of \<open>Hub\<close> declared outside the sources at hand. \<open>listPeers\<close> is the admitted peer
  list, taken here from the index by SID (Go leaves the order of a map open; the model
  lists in the order of insertion); \<open>Peers\<close> is "a lock-held snapshot"; \<open>bySID\<close> looks a
  SID up under the read lock; \<open>nextSID\<close> "returns a fresh, previously-unused SID",
  here by counting.
\<close>

definition listPeers :: "hub \<Rightarrow> Peer list" where
  "listPeers h = map snd (bySID (peers h))"

definition Peers :: "hub \<Rightarrow> Peer list \<times> hub" where
  "Peers h = (let h1 = RLock h in (listPeers h1, RUnlock h1))"

definition hub_bySID :: "SID \<Rightarrow> hub \<Rightarrow> Peer option \<times> hub" where
  "hub_bySID s h = (let h1 = RLock h in (map_of (bySID (peers h1)) s, RUnlock h1))"

definition nextSID :: "hub \<Rightarrow> SID \<times> hub" where
  "nextSID h = (Suc (lastSID h), h\<lparr>lastSID := Suc (lastSID h)\<rparr>)"

section \<open>The Protocol stage\<close>

definition hubFeatures :: ModFeatures where
  "hubFeatures = [FeaBASE \<mapsto> True, FeaBAS0 \<mapsto> True, FeaTIGR \<mapsto> True, FeaPING \<mapsto> True]"

text \<open>\<open>&adcPeer{...}\<close>: a new object at a reference not used before.\<close>

definition newAdcPeer :: "adcPeer \<Rightarrow> hub \<Rightarrow> aref \<times> hub" where
  "newAdcPeer p h =
     (allocated h, h\<lparr>adcPeers := (adcPeers h)(allocated h := p), allocated := Suc (allocated h)\<rparr>)"

definition emptyUser :: User where
  "emptyUser = \<lparr>Id' = [], Pid = None, Name = [], Ip4 = [], Application = [], Version = []\<rparr>"

definition adcStageProtocol :: "externals \<Rightarrow> cref \<Rightarrow> hub \<Rightarrow> (error + aref) \<times> hub" where
  "adcStageProtocol X c h =
     (case ReadPacketDeadline c h of
        (Inl err, h1) \<Rightarrow> (Inl err, h1)
      | (Inr p, h1) \<Rightarrow>
     (case p of
        HubPacket name data \<Rightarrow>
          if name \<noteq> Supported_Cmd then (Inl (ErrExpectedSupport name), h1)
          else
            (case UnmarshalSupported X data of
               Inl err \<Rightarrow> (Inl err, h1)
             | Inr sup' \<Rightarrow>
                 let mutual = Intersect hubFeatures sup' in
                 if \<not> IsSet mutual FeaBASE \<and> \<not> IsSet mutual FeaBAS0 then (Inl ErrNoBASE, h1)
                 else if \<not> IsSet mutual FeaTIGR then (Inl ErrNoTIGR, h1)
                 else
                   (case WriteInfoMsg c (Supported hubFeatures) h1 of
                      (Some err, h2) \<Rightarrow> (Inl err, h2)
                    | (None, h2) \<Rightarrow>
                   (case nextSID h2 of (sid', h3) \<Rightarrow>
                   (case WriteInfoMsg c (SIDAssign sid') h3 of
                      (Some err, h4) \<Rightarrow> (Inl err, h4)
                    | (None, h4) \<Rightarrow>
                   (case Flush c h4 of
                      (Some err, h5) \<Rightarrow> (Inl err, h5)
                    | (None, h5) \<Rightarrow>
                   (case newAdcPeer \<lparr>sid = sid', addr = remote (conns h5 c), conn = c,
                                     fea = mutual, closed = False, user = emptyUser\<rparr> h5 of
                      (a, h6) \<Rightarrow> (Inr a, h6)))))))
      | _ \<Rightarrow> (Inl (ErrExpectedHub (GoSyntax X p)), h1)))"

section \<open>Methods of a peer\<close>

text \<open>\<open>peer.SID()\<close> on a value of the interface.\<close>

definition peerSID :: "hub \<Rightarrow> Peer \<Rightarrow> SID" where
  "peerSID h peer = (case peer of AdcPeer a \<Rightarrow> sid (adcPeers h a) | NmdcPeer n \<Rightarrow> nsid (nmdcPeers h n))"

definition sendInfo :: "aref \<Rightarrow> Message \<Rightarrow> hub \<Rightarrow> error option \<times> hub" where
  "sendInfo p m h =
     (case WriteInfoMsg (conn (adcPeers h p)) m h of
        (Some err, h1) \<Rightarrow> (Some err, h1)
      | (None, h1) \<Rightarrow> Flush (conn (adcPeers h1 p)) h1)"

definition sendError :: "aref \<Rightarrow> Severity \<Rightarrow> int \<Rightarrow> error \<Rightarrow> hub \<Rightarrow> error option \<times> hub" where
  "sendError p sev code err = sendInfo p (Status sev code (Error err))"

text \<open>\<open>PeersJoin\<close>: the loop over \<open>peers\<close>, then the flush. \<open>p2.Info()\<close> is the cached
  user record of \<open>p2\<close>.\<close>

fun PeersJoin_loop :: "externals \<Rightarrow> cref \<Rightarrow> Peer list \<Rightarrow> hub \<Rightarrow> error option \<times> hub" where
  "PeersJoin_loop X c [] h = Flush c h"
| "PeersJoin_loop X c (peer # rest) h =
     (let u = (case peer of
                 AdcPeer p2 \<Rightarrow> user (adcPeers h p2)
               | NmdcPeer n \<Rightarrow>
                   emptyUser\<lparr>Name := nname (nmdcPeers h n),
                             Id' := HashBytes X (Addr_String (naddr (nmdcPeers h n))),
                             Application := napp (nmdcPeers h n),
                             Version := nvers (nmdcPeers h n)\<rparr>)
      in case WriteBroadcast c (peerSID h peer) (UserMsg u) h of
           (Some err, h1) \<Rightarrow> (Some err, h1)
         | (None, h1) \<Rightarrow> PeersJoin_loop X c rest h1)"

definition PeersJoin :: "externals \<Rightarrow> aref \<Rightarrow> Peer list \<Rightarrow> hub \<Rightarrow> error option \<times> hub" where
  "PeersJoin X p ps h = PeersJoin_loop X (conn (adcPeers h p)) ps h"

definition ChatMsg :: "aref \<Rightarrow> Peer \<Rightarrow> string \<Rightarrow> hub \<Rightarrow> error option \<times> hub" where
  "ChatMsg p from text h =
     (case WriteBroadcast (conn (adcPeers h p)) (peerSID h from) (ChatMessage text) h of
        (Some err, h1) \<Rightarrow> (Some err, h1)
      | (None, h1) \<Rightarrow> Flush (conn (adcPeers h1 p)) h1)"

text \<open>
  Modelled from the spec: \<open>broadcastUserJoin\<close> and \<open>broadcastChat\<close> are methods of
  \<open>Hub\<close> declared outside the sources at hand. The first is to "broadcast the new
  peer's join (their INF) to every peer in the snapshot", the second delivers a chat
  message by "the foreign peer's \<open>ChatMsg(from, text)\<close>"; a failed write to one peer
  does "not abort fan-out to siblings". What a peer of the sibling protocol does
  with a join is outside the model.
\<close>

fun broadcastUserJoin :: "externals \<Rightarrow> Peer \<Rightarrow> Peer list \<Rightarrow> hub \<Rightarrow> hub" where
  "broadcastUserJoin X peer [] h = h"
| "broadcastUserJoin X peer (p # rest) h =
     broadcastUserJoin X peer rest
       (case p of AdcPeer a \<Rightarrow> snd (PeersJoin X a [peer] h) | NmdcPeer n \<Rightarrow> h)"

fun broadcastChat :: "Peer \<Rightarrow> string \<Rightarrow> Peer list \<Rightarrow> hub \<Rightarrow> hub" where
  "broadcastChat from text [] h = h"
| "broadcastChat from text (p # rest) h =
     broadcastChat from text rest
       (case p of
          AdcPeer a \<Rightarrow> snd (ChatMsg a from text h)
        | NmdcPeer n \<Rightarrow>
            h\<lparr>nmdcPeers := (nmdcPeers h)(n := (nmdcPeers h n)\<lparr>chat := chat (nmdcPeers h n) @ [(from, text)]\<rparr>)\<rparr>)"

section \<open>The Identity stage\<close>

text \<open>The closure \<open>unbind\<close> of \<open>adcStageIdentity\<close>.\<close>

definition unbind :: "User \<Rightarrow> hub \<Rightarrow> hub" where
  "unbind u h =
     (let h1 = Lock h;
          h2 = h1\<lparr>peers := (peers h1)\<lparr>logging := logging (peers h1) - {Name u}\<rparr>\<rparr>;
          h3 = h2\<lparr>peers := (peers h2)\<lparr>loggingCID := loggingCID (peers h2) - {Id' u}\<rparr>\<rparr>
      in Unlock h3)"

text \<open>
  \<open>adcStageIdentity\<close> is long; the model has one definition for each of its four
  parts and then the function itself. The first part reads the user's \<open>INF\<close>, checks
  the PID, clears it and checks the nick (up to the comment "do not lock for writes
  first").
\<close>

definition identityUser :: "externals \<Rightarrow> aref \<Rightarrow> hub \<Rightarrow> (error + User) \<times> hub" where
  "identityUser X peer h =
     (case ReadPacketDeadline (conn (adcPeers h peer)) h of
        (Inl err, h1) \<Rightarrow> (Inl err, h1)
      | (Inr p, h1) \<Rightarrow>
     (case p of
        BroadcastPacket name id' data \<Rightarrow>
          if name \<noteq> User_Cmd then (Inl (ErrExpectedUserInfo name), h1)
          else
            (case UnmarshalUser X data of
               Inl err \<Rightarrow> (Inl err, h1)
             | Inr u \<Rightarrow>
                 if Id' u \<noteq> Hash X (Pid u)
                 then (Inl ErrInvalidPid, snd (sendError peer Fatal 27 ErrInvalidPid h1))
                 else
                   let u = u\<lparr>Pid := None\<rparr> in
                   if Name u = []
                   then (Inl ErrInvalidNick, snd (sendError peer Fatal 21 ErrInvalidNick h1))
                   else (Inr u, h1))
      | _ \<Rightarrow> (Inl (ErrExpectedBroadcast (GoSyntax X p)), h1)))"

text \<open>The second part: the check under the read lock, then the check again and the
  binding of nick and CID under the write lock (up to the closure \<open>unbind\<close>).\<close>

definition identityBind :: "User \<Rightarrow> aref \<Rightarrow> hub \<Rightarrow> error option \<times> hub" where
  "identityBind u peer h =
     (let h1 = RLock h;
          sameName1 = (Name u \<in> logging (peers h1));
          sameName2 = (map_of (byName (peers h1)) (Name u) \<noteq> None);
          sameCID1 = (Id' u \<in> loggingCID (peers h1));
          sameCID2 = (map_of (byCID (peers h1)) (Id' u) \<noteq> None);
          h2 = RUnlock h1
      in
      if sameName1 \<or> sameName2 then (Some errNickTaken, snd (sendError peer Fatal 22 errNickTaken h2))
      else if sameCID1 \<or> sameCID2 then (Some ErrCIDTaken, snd (sendError peer Fatal 24 ErrCIDTaken h2))
      else
        let h3 = Lock h2;
            sameName1 = (Name u \<in> logging (peers h3));
            sameName2 = (map_of (byName (peers h3)) (Name u) \<noteq> None)
        in
        if sameName1 \<or> sameName2
        then (Some errNickTaken, snd (sendError peer Fatal 22 errNickTaken (Unlock h3)))
        else
          let sameCID1 = (Id' u \<in> loggingCID (peers h3));
              sameCID2 = (map_of (byCID (peers h3)) (Id' u) \<noteq> None)
          in
          if sameCID1 \<or> sameCID2
          then (Some ErrCIDTaken, snd (sendError peer Fatal 24 ErrCIDTaken (Unlock h3)))
          else
            let h4 = h3\<lparr>peers := (peers h3)\<lparr>logging := insert (Name u) (logging (peers h3))\<rparr>\<rparr>;
                h5 = h4\<lparr>peers := (peers h4)\<lparr>loggingCID := insert (Id' u) (loggingCID (peers h4))\<rparr>\<rparr>
            in (None, Unlock h5))"

text \<open>
  The third part: the IP address, the cached record, the hub's info and the status,
  the user list and the peer's own info. The result of writing the status is assigned
  to \<open>err\<close> and overwritten by the next assignment.
\<close>

definition identityGreet :: "externals \<Rightarrow> User \<Rightarrow> aref \<Rightarrow> hub \<Rightarrow> (error + User) \<times> hub" where
  "identityGreet X u peer h =
     (let u = (if Ip4 u = [] then u\<lparr>Ip4 := Addr_String (addr (adcPeers h peer))\<rparr> else u);
          h1 = h\<lparr>adcPeers := (adcPeers h)(peer := (adcPeers h peer)\<lparr>user := u\<rparr>)\<rparr>
      in
      case WriteInfoMsg (conn (adcPeers h1 peer))
             (HubInfo (infoName h1) (infoVersion h1) (infoDesc h1)) h1 of
        (Some err, h2) \<Rightarrow> (Inl err, unbind u h2)
      | (None, h2) \<Rightarrow>
     (case WriteInfoMsg (conn (adcPeers h2 peer)) (Status Success 0 ''powered by Gophers'') h2 of
        (err, h3) \<Rightarrow>
     (case Peers h3 of
        (list, h4) \<Rightarrow>
     (case PeersJoin X peer list h4 of
        (Some err, h5) \<Rightarrow> (Inl err, unbind u h5)
      | (None, h5) \<Rightarrow>
     (case PeersJoin X peer [AdcPeer peer] h5 of
        (Some err, h6) \<Rightarrow> (Inl err, unbind u h6)
      | (None, h6) \<Rightarrow> (Inr u, h6))))))"

text \<open>The fourth part, from "finally accept the user on the hub".\<close>

definition identityAccept :: "externals \<Rightarrow> User \<Rightarrow> aref \<Rightarrow> hub \<Rightarrow> hub" where
  "identityAccept X u peer h =
     (let h1 = Lock h;
          h2 = h1\<lparr>peers := (peers h1)\<lparr>logging := logging (peers h1) - {Name (user (adcPeers h1 peer))}\<rparr>\<rparr>;
          h3 = h2\<lparr>peers := (peers h2)\<lparr>loggingCID := loggingCID (peers h2) - {Id' u}\<rparr>\<rparr>;
          list = listPeers h3;
          h4 = h3\<lparr>peers := (peers h3)\<lparr>bySID :=
                 AList.update (sid (adcPeers h3 peer)) (AdcPeer peer) (bySID (peers h3))\<rparr>\<rparr>;
          h5 = h4\<lparr>peers := (peers h4)\<lparr>byCID :=
                 AList.update (Id' u) (AdcPeer peer) (byCID (peers h4))\<rparr>\<rparr>;
          h6 = h5\<lparr>peers := (peers h5)\<lparr>byName :=
                 AList.update (Name u) (AdcPeer peer) (byName (peers h5))\<rparr>\<rparr>;
          h7 = Unlock h6
      in broadcastUserJoin X (AdcPeer peer) list h7)"

definition adcStageIdentity :: "externals \<Rightarrow> aref \<Rightarrow> hub \<Rightarrow> error option \<times> hub" where
  "adcStageIdentity X peer h =
     (case identityUser X peer h of
        (Inl err, h1) \<Rightarrow> (Some err, h1)
      | (Inr u, h1) \<Rightarrow>
     (case identityBind u peer h1 of
        (Some err, h2) \<Rightarrow> (Some err, h2)
      | (None, h2) \<Rightarrow>
     (case identityGreet X u peer h2 of
        (Inl err, h3) \<Rightarrow> (Some err, h3)
      | (Inr u', h3) \<Rightarrow> (None, identityAccept X u' peer h3))))"

section \<open>Routing\<close>

text \<open>\<open>adcBroadcast\<close>: the loop over \<open>peers\<close>, which collects the peers of the sibling
  protocol in \<open>nmdc\<close>, then the translation of a chat message for them.\<close>

fun adcBroadcast_loop :: "Packet \<Rightarrow> Peer list \<Rightarrow> hub \<Rightarrow> Peer list \<times> hub" where
  "adcBroadcast_loop p [] h = ([], h)"
| "adcBroadcast_loop p (peer # rest) h =
     (case peer of
        AdcPeer p2 \<Rightarrow>
          (case WritePacket (conn (adcPeers h p2)) p h of
             (err1, h1) \<Rightarrow>
          (case Flush (conn (adcPeers h1 p2)) h1 of
             (err2, h2) \<Rightarrow> adcBroadcast_loop p rest h2))
      | NmdcPeer n \<Rightarrow>
          (case adcBroadcast_loop p rest h of (nmdc, h1) \<Rightarrow> (peer # nmdc, h1)))"

definition adcBroadcast :: "externals \<Rightarrow> Packet \<Rightarrow> Peer \<Rightarrow> Peer list option \<Rightarrow> hub \<Rightarrow> hub" where
  "adcBroadcast X p from ps h =
     (case (case ps of None \<Rightarrow> Peers h | Some l \<Rightarrow> (l, h)) of
        (ps', h1) \<Rightarrow>
     (case adcBroadcast_loop p ps' h1 of
        (nmdc, h2) \<Rightarrow>
          if nmdc = [] then h2
          else
            (case Decode X p of
               Inl err \<Rightarrow> h2\<lparr>logErrs := logErrs h2 @ [err]\<rparr>
             | Inr msg \<Rightarrow>
                 (case msg of
                    ChatMessage text \<Rightarrow> broadcastChat from text nmdc h2
                  | _ \<Rightarrow> h2))))"

definition adcDirect :: "Packet \<Rightarrow> hub \<Rightarrow> hub" where
  "adcDirect p h =
     (case p of
        DirectPacket name id' targ data \<Rightarrow>
          (case hub_bySID targ h of
             (None, h1) \<Rightarrow> h1
           | (Some peer, h1) \<Rightarrow>
               (case peer of
                  AdcPeer p2 \<Rightarrow>
                    (case WritePacket (conn (adcPeers h1 p2)) p h1 of
                       (err1, h2) \<Rightarrow> snd (Flush (conn (adcPeers h2 p2)) h2))
                | NmdcPeer n \<Rightarrow> h1))
      | _ \<Rightarrow> h)"

text \<open>A call started with \<open>go\<close> is put down in \<open>goroutines\<close>; \<open>runTask\<close> is its run.\<close>

definition go :: "Task \<Rightarrow> hub \<Rightarrow> hub" where
  "go t h = h\<lparr>goroutines := goroutines h @ [t]\<rparr>"

definition runTask :: "externals \<Rightarrow> Task \<Rightarrow> hub \<Rightarrow> hub" where
  "runTask X t h =
     (case t of
        GoBroadcast p from ps \<Rightarrow> adcBroadcast X p from ps h
      | GoDirect p \<Rightarrow> adcDirect p h)"

section \<open>The serving loop\<close>

definition logPacket :: "SID \<Rightarrow> Packet \<Rightarrow> hub \<Rightarrow> hub" where
  "logPacket s p h = h\<lparr>logged := logged h @ [(s, p)]\<rparr>"

text \<open>
  The body of the loop of \<open>adcServePeer\<close> for a packet read: the type switch and the
  log line. \<open>Some err\<close> is \<open>return err\<close>; \<open>None\<close> is the end of the body, after which
  the loop reads again. An echo packet is handed to \<open>adcDirect\<close> converted to a direct
  packet.
\<close>

definition servePacket :: "aref \<Rightarrow> Packet \<Rightarrow> hub \<Rightarrow> error option \<times> hub" where
  "servePacket peer p h =
     (case p of
        BroadcastPacket name id' data \<Rightarrow>
          if sid (adcPeers h peer) \<noteq> id' then (Some ErrMalformedBroadcast, h)
          else
            (case Peers h of
               (list, h1) \<Rightarrow>
                 (None, logPacket (sid (adcPeers h1 peer)) p
                          (go (GoBroadcast p (AdcPeer peer) (Some list)) h1)))
      | EchoPacket name id' targ data \<Rightarrow>
          if sid (adcPeers h peer) \<noteq> id' then (Some ErrMalformedEcho, h)
          else
            (case WritePacket (conn (adcPeers h peer)) p h of
               (Some err, h1) \<Rightarrow> (Some err, h1)
             | (None, h1) \<Rightarrow>
            (case Flush (conn (adcPeers h1 peer)) h1 of
               (Some err, h2) \<Rightarrow> (Some err, h2)
             | (None, h2) \<Rightarrow>
                 (None, logPacket (sid (adcPeers h2 peer)) p
                          (go (GoDirect (DirectPacket name id' targ data)) h2))))
      | DirectPacket name id' targ data \<Rightarrow>
          if sid (adcPeers h peer) \<noteq> id' then (Some ErrMalformedDirect, h)
          else (None, logPacket (sid (adcPeers h peer)) p (go (GoDirect p) h))
      | _ \<Rightarrow> (None, logPacket (sid (adcPeers h peer)) p h))"

text \<open>How a call that may wait for ever ends: it returns, or it blocks.\<close>

datatype 'a outcome = Returns 'a | Blocks

text \<open>The body of the loop leaves the peers and what is still to be read as they
  were, so each turn of the loop has one packet less to read.\<close>

lemma servePacket_inp:
  "servePacket peer p h = (None, h') \<Longrightarrow>
     adcPeers h' = adcPeers h \<and> (\<forall>c. inp (conns h' c) = inp (conns h c))"
  unfolding servePacket_def WritePacket_def Flush_def Peers_def RLock_def RUnlock_def Lock_def
    go_def logPacket_def
  by (auto split: Packet.splits if_splits prod.splits option.splits list.splits
       simp: Let_def connDo_def perform_def)

text \<open>\<open>adcServePeer\<close>: \<open>io.EOF\<close> ends the loop with \<open>nil\<close>, any other error of the
  read with that error.\<close>

function adcServePeer :: "aref \<Rightarrow> hub \<Rightarrow> error option outcome \<times> hub" where
  "adcServePeer peer h =
     (case ReadPacket (conn (adcPeers h peer)) h of
        None \<Rightarrow> (Blocks, h)
      | Some (Inl err, h1) \<Rightarrow>
          if err = EOF then (Returns None, h1) else (Returns (Some err), h1)
      | Some (Inr p, h1) \<Rightarrow>
          (case servePacket peer p h1 of
             (Some err, h2) \<Rightarrow> (Returns (Some err), h2)
           | (None, h2) \<Rightarrow> adcServePeer peer h2))"
  by pat_completeness auto
termination
proof (relation "measure (\<lambda>(peer, h). length (inp (conns h (conn (adcPeers h peer)))))")
  show "wf (measure (\<lambda>(peer, h). length (inp (conns h (conn (adcPeers h peer))))))" by simp
next
  fix peer h x2 x y p h2 x1 ya
  assume r: "ReadPacket (conn (adcPeers h peer)) h = Some x2" "(x, y) = x2" "x = Inr p"
    and s: "(x1, h2) = servePacket peer p y" "x1 = None"
  from r have y: "adcPeers y = adcPeers h"
    "length (inp (conns y (conn (adcPeers h peer)))) < length (inp (conns h (conn (adcPeers h peer))))"
    by (auto simp: ReadPacket_def split: list.splits)
  from s servePacket_inp[of peer p y h2] have "adcPeers h2 = adcPeers y"
    "inp (conns h2 (conn (adcPeers h peer))) = inp (conns y (conn (adcPeers h peer)))" by auto
  with y show "((peer, h2), (peer, h)) \<in> measure (\<lambda>(peer, h). length (inp (conns h (conn (adcPeers h peer)))))"
    by simp
qed

section \<open>Notions for stating the properties\<close>

text \<open>\<open>connsOnly h h'\<close>: from \<open>h\<close> to \<open>h'\<close> nothing but the connections has changed.\<close>

definition connsOnly :: "hub \<Rightarrow> hub \<Rightarrow> bool" where
  "connsOnly h h' \<longleftrightarrow> (\<exists>cs. h' = h\<lparr>conns := cs\<rparr>)"

text \<open>The state once the next packet of the peer's connection has been read.\<close>

definition afterRead :: "aref \<Rightarrow> hub \<Rightarrow> hub" where
  "afterRead peer h = h\<lparr>conns := (conns h)(conn (adcPeers h peer) :=
      (conns h (conn (adcPeers h peer)))\<lparr>inp := tl (inp (conns h (conn (adcPeers h peer))))\<rparr>)\<rparr>"

text \<open>A nick or a CID is taken when it is reserved or admitted; \<open>reserve\<close> is the
  registry with the nick and the CID of \<open>u\<close> put into the two reservation sets.\<close>

definition nameTaken :: "string \<Rightarrow> peersReg \<Rightarrow> bool" where
  "nameTaken n r \<longleftrightarrow> n \<in> logging r \<or> map_of (byName r) n \<noteq> None"

definition cidTaken :: "CID \<Rightarrow> peersReg \<Rightarrow> bool" where
  "cidTaken c r \<longleftrightarrow> c \<in> loggingCID r \<or> map_of (byCID r) c \<noteq> None"

definition reserve :: "User \<Rightarrow> peersReg \<Rightarrow> peersReg" where
  "reserve u r = r\<lparr>logging := insert (Name u) (logging r), loggingCID := insert (Id' u) (loggingCID r)\<rparr>"

text \<open>The record with the text \<open>a\<close> put in for an empty IPv4 field.\<close>

definition fillIp4 :: "User \<Rightarrow> string \<Rightarrow> User" where
  "fillIp4 u a = (if Ip4 u = [] then u\<lparr>Ip4 := a\<rparr> else u)"

text \<open>The packets the serving loop routes; a packet whose SID is not the sender's,
  with the error the loop returns for it; an echo packet.\<close>

definition isRouted :: "Packet \<Rightarrow> bool" where
  "isRouted p = (case p of BroadcastPacket n i d \<Rightarrow> True | EchoPacket n i t d \<Rightarrow> True
                 | DirectPacket n i t d \<Rightarrow> True | _ \<Rightarrow> False)"

definition sidMismatch :: "SID \<Rightarrow> Packet \<Rightarrow> error \<Rightarrow> bool" where
  "sidMismatch s p e =
     (case p of
        BroadcastPacket n i d \<Rightarrow> i \<noteq> s \<and> e = ErrMalformedBroadcast
      | EchoPacket n i t d \<Rightarrow> i \<noteq> s \<and> e = ErrMalformedEcho
      | DirectPacket n i t d \<Rightarrow> i \<noteq> s \<and> e = ErrMalformedDirect
      | _ \<Rightarrow> False)"

definition isEcho :: "Packet \<Rightarrow> bool" where
  "isEcho p = (case p of EchoPacket n i t d \<Rightarrow> True | _ \<Rightarrow> False)"

text \<open>The native peers of a list that sit on connection \<open>c\<close>; a peer held by the
  three indices under its SID, CID and nick.\<close>

definition nativesOn :: "hub \<Rightarrow> cref \<Rightarrow> Peer list \<Rightarrow> Peer list" where
  "nativesOn h c ps = [P \<leftarrow> ps. case P of AdcPeer a \<Rightarrow> conn (adcPeers h a) = c | NmdcPeer n \<Rightarrow> False]"

definition indexed :: "Peer \<Rightarrow> SID \<Rightarrow> CID \<Rightarrow> string \<Rightarrow> peersReg \<Rightarrow> bool" where
  "indexed P s c n r \<longleftrightarrow>
     map_of (bySID r) s = Some P \<and> map_of (byCID r) c = Some P \<and> map_of (byName r) n = Some P"





section \<open>A small hub to run the code on\<close>

text \<open>
  A toy instance of the parameters: the hash of a PID is the PID reversed, and the
  decoders know a few bodies. \<open>hub0\<close> is a hub just started, with no peer and no
  other activity; connection \<open>0\<close> comes from address \<open>10.0.0.7\<close>, port \<open>4111\<close>.
\<close>

definition alice :: User where
  "alice = \<lparr>Id' = ''dip'', Pid = Some ''pid'', Name = ''alice'', Ip4 = [],
            Application = ''app'', Version = ''1''\<rparr>"

definition exSup :: ModFeatures where
  "exSup = [FeaBASE \<mapsto> True, FeaTIGR \<mapsto> True]"

definition exX :: externals where
  "exX = \<lparr>Hash = (\<lambda>p. case p of None \<Rightarrow> [] | Some s \<Rightarrow> rev s),
          HashBytes = rev,
          UnmarshalSupported = (\<lambda>d. if d = ''ADBASE ADTIGR'' then Inr exSup
                                     else Inl (ErrUnmarshal ''bad SUP'')),
          UnmarshalUser = (\<lambda>d. if d = ''alice'' then Inr alice
                                else if d = ''alice 10.1.1.1'' then Inr (alice\<lparr>Ip4 := ''10.1.1.1''\<rparr>)
                                else if d = ''mallory'' then Inr (alice\<lparr>Pid := Some ''guess''\<rparr>)
                                else Inl (ErrUnmarshal ''bad INF'')),
          Decode = (\<lambda>p. case p of
                      BroadcastPacket n i d \<Rightarrow>
                        if n = ''MSG'' then Inr (ChatMessage d) else Inl (ErrUnmarshal ''unknown'')
                    | _ \<Rightarrow> Inl (ErrUnmarshal ''unknown'')),
          GoSyntax = (\<lambda>p. ''&adc.Packet{}'')\<rparr>"

definition conn0 :: Conn where
  "conn0 = \<lparr>inp = [], wres = [], out = [], remote = \<lparr>IP = ''10.0.0.7'', Port = ''4111''\<rparr>\<rparr>"

definition peer0 :: adcPeer where
  "peer0 = \<lparr>sid = 1, addr = \<lparr>IP = ''10.0.0.7'', Port = ''4111''\<rparr>, conn = 0, fea = exSup, closed = False,
            user = emptyUser\<rparr>"

definition nmdc0 :: nmdcPeer where
  "nmdc0 = \<lparr>nsid = 9, nname = ''nina'', naddr = \<lparr>IP = ''10.0.0.9'', Port = ''411''\<rparr>, napp = ''n'', nvers = ''0'',
            chat = []\<rparr>"

definition reg0 :: peersReg where
  "reg0 = \<lparr>logging = {}, loggingCID = {}, bySID = [], byCID = [], byName = []\<rparr>"

definition hub0 :: hub where
  "hub0 = \<lparr>infoName = ''GoTestHub'', infoVersion = [], infoDesc = ''Hybrid hub'',
           peers = reg0, lastSID = 0,
           adcPeers = (\<lambda>_. peer0), nmdcPeers = (\<lambda>_. nmdc0), conns = (\<lambda>_. conn0),
           allocated = 0, sched = [], released = [], goroutines = [], logged = [],
           logErrs = []\<rparr>"

text \<open>\<open>hubRecv rs\<close>: the same hub when the client of connection \<open>0\<close> sends \<open>rs\<close>.\<close>

definition hubRecv :: "(error + Packet) list \<Rightarrow> hub" where
  "hubRecv rs = hub0\<lparr>conns := (\<lambda>_. conn0\<lparr>inp := rs\<rparr>)\<rparr>"

text \<open>What clients send and what the others do: a user's \<open>INF\<close>; another connection
  reserving the nick \<open>alice\<close> while this one is between its two checks; a hub where
  nick and CID are both taken; a connection whose second write fails.\<close>

definition userINF :: "string \<Rightarrow> error + Packet" where
  "userINF d = Inr (BroadcastPacket User_Cmd 1 d)"

definition raceNick :: "peersReg \<Rightarrow> peersReg" where
  "raceNick r = r\<lparr>logging := insert ''alice'' (logging r)\<rparr>"

definition hubRace :: hub where
  "hubRace = (hubRecv [userINF ''alice''])\<lparr>sched := [id, raceNick]\<rparr>"


definition hubStatusFails :: hub where
  "hubStatusFails = hub0\<lparr>conns := (\<lambda>_. conn0\<lparr>inp := [userINF ''alice''],
      wres := [None, Some ''broken pipe'']\<rparr>)\<rparr>"

text \<open>A client that sends a status and hangs up.\<close>

definition hubIdle :: hub where
  "hubIdle = hubRecv [Inr (InfoPacket ''STA'' ''000 ok''), Inl EOF]"

text \<open>A hub with \<open>alice\<close> admitted as peer \<open>0\<close>.\<close>

definition hubServing :: hub where
  "hubServing = hub0\<lparr>peers := reg0\<lparr>bySID := [(1, AdcPeer 0)], byCID := [(''dip'', AdcPeer 0)],
      byName := [(''alice'', AdcPeer 0)]\<rparr>,
      adcPeers := (\<lambda>_. peer0\<lparr>user := alice\<lparr>Pid := None\<rparr>\<rparr>)\<rparr>"



lemmas ex_defs = hubRecv_def hub0_def conn0_def peer0_def reg0_def exX_def alice_def exSup_def
  User_Cmd_def userINF_def emptyUser_def Addr_String_def

lemmas stage_defs = adcStageIdentity_def identityUser_def identityBind_def identityGreet_def
  identityAccept_def ReadPacketDeadline_def sendError_def sendInfo_def WriteInfoMsg_def
  WriteBroadcast_def Flush_def connDo_def perform_def nextRes_def Lock_def Unlock_def RLock_def
  RUnlock_def Peers_def listPeers_def PeersJoin_def unbind_def peerSID_def

section \<open>Calls on a connection\<close>

lemma perform_fields [simp]:
  "inp (perform op k) = inp k"
  "remote (perform op k) = remote k"
  "wres (perform op k) = tl (wres k)"
  "out (perform op k) = out k @ [(op, nextRes k)]"
  by (simp_all add: perform_def)

lemma nextRes_inp [simp]: "nextRes (k\<lparr>inp := x\<rparr>) = nextRes k"
  by (simp add: nextRes_def)

lemma perform_inp: "perform op (k\<lparr>inp := x\<rparr>) = (perform op k)\<lparr>inp := x\<rparr>"
  by (simp add: perform_def)

text \<open>When the next writes are scripted to succeed, the next one does, and the ones
  after it are still scripted to.\<close>

lemma writes_ok:
  "list_all (\<lambda>r. r = None) (take (Suc n) (wres k)) \<Longrightarrow>
     nextRes k = None \<and> list_all (\<lambda>r. r = None) (take n (wres (perform op k)))"
  by (cases "wres k") (auto simp: nextRes_def list_all_iff dest: in_set_takeD)

lemma connDo_fst [simp]: "fst (connDo c op h) = nextRes (conns h c)"
  by (simp add: connDo_def)

lemma connDo_snd [simp]:
  "snd (connDo c op h) = h\<lparr>conns := (conns h)(c := perform op (conns h c))\<rparr>"
  by (simp add: connDo_def)

section \<open>What the calls leave as it was\<close>

lemma connsOnly_refl [simp]: "connsOnly h h"
  unfolding connsOnly_def by (rule exI[of _ "conns h"]) simp

lemma connsOnly_trans: "connsOnly h h1 \<Longrightarrow> connsOnly h1 h2 \<Longrightarrow> connsOnly h h2"
  unfolding connsOnly_def by auto

lemma connsOnly_upd [simp]: "connsOnly h (h\<lparr>conns := cs\<rparr>)"
  unfolding connsOnly_def by blast

lemma connsOnly_fields:
  assumes "connsOnly h h'"
  shows "adcPeers h' = adcPeers h" "nmdcPeers h' = nmdcPeers h" "peers h' = peers h"
    "sched h' = sched h" "released h' = released h" "lastSID h' = lastSID h"
    "goroutines h' = goroutines h" "logged h' = logged h" "allocated h' = allocated h"
    "infoName h' = infoName h" "infoVersion h' = infoVersion h" "infoDesc h' = infoDesc h"
  using assms unfolding connsOnly_def by auto

lemma connsOnly_connDo [simp]: "connsOnly h (snd (connDo c op h))"
  by simp

lemma connsOnly_sendInfo [simp]: "connsOnly h (snd (sendInfo p m h))"
  by (simp add: sendInfo_def WriteInfoMsg_def Flush_def connDo_def split: option.splits)

lemma connsOnly_sendError [simp]: "connsOnly h (snd (sendError p sev code e h))"
  by (simp add: sendError_def)

lemma connsOnly_upd_left: "connsOnly (h\<lparr>conns := cs\<rparr>) h' \<Longrightarrow> connsOnly h h'"
  unfolding connsOnly_def by auto

lemma connsOnly_PeersJoin_loop [simp]: "connsOnly h (snd (PeersJoin_loop X c ps h))"
proof (induction ps arbitrary: h)
  case Nil
  show ?case by (simp add: Flush_def)
next
  case (Cons p ps)
  show ?case using Cons.IH
    by (auto simp: Let_def WriteBroadcast_def connDo_def split: option.splits
        intro: connsOnly_upd_left)
qed

lemma connsOnly_PeersJoin [simp]: "connsOnly h (snd (PeersJoin X p ps h))"
  by (simp add: PeersJoin_def)

lemma connsOnly_broadcastUserJoin [simp]: "connsOnly h (broadcastUserJoin X P ps h)"
proof (induction ps arbitrary: h)
  case Nil
  show ?case by simp
next
  case (Cons p ps)
  show ?case
  proof (cases p)
    case (AdcPeer a)
    have "connsOnly h (snd (PeersJoin X a [P] h))" by simp
    from connsOnly_trans[OF this Cons.IH] show ?thesis using AdcPeer by simp
  next
    case (NmdcPeer n)
    then show ?thesis using Cons.IH by simp
  qed
qed

text \<open>The lock.\<close>

lemma Lock_conns: "Lock (h\<lparr>conns := cs\<rparr>) = (Lock h)\<lparr>conns := cs\<rparr>"
  by (simp add: Lock_def split: list.splits)

lemma Lock_fields [simp]:
  "adcPeers (Lock h) = adcPeers h" "conns (Lock h) = conns h" "released (Lock h) = released h"
  "nmdcPeers (Lock h) = nmdcPeers h" "lastSID (Lock h) = lastSID h"
  "infoName (Lock h) = infoName h" "infoVersion (Lock h) = infoVersion h"
  "infoDesc (Lock h) = infoDesc h"
  by (simp_all add: Lock_def split: list.splits)

lemma Unlock_fields [simp]:
  "adcPeers (Unlock h) = adcPeers h" "conns (Unlock h) = conns h" "peers (Unlock h) = peers h"
  "sched (Unlock h) = sched h" "released (Unlock h) = released h @ [peers h]"
  by (simp_all add: Unlock_def)

lemma connsOnly_Lock: "connsOnly h h' \<Longrightarrow> connsOnly (Lock h) (Lock h')"
  unfolding connsOnly_def by (auto simp: Lock_conns)

lemma identityUser_INF:
  assumes rd: "inp (conns h (conn (adcPeers h peer))) = Inr (BroadcastPacket User_Cmd i d) # rest"
      and un: "UnmarshalUser X d = Inr u"
  shows "identityUser X peer h =
     (if Id' u \<noteq> Hash X (Pid u)
      then (Inl ErrInvalidPid, snd (sendError peer Fatal 27 ErrInvalidPid (afterRead peer h)))
      else if Name u = []
      then (Inl ErrInvalidNick, snd (sendError peer Fatal 21 ErrInvalidNick (afterRead peer h)))
      else (Inr (u\<lparr>Pid := None\<rparr>), afterRead peer h))"
  using rd un by (simp add: identityUser_def ReadPacketDeadline_def afterRead_def Let_def)

lemma connsOnly_afterRead [simp]: "connsOnly h (afterRead peer h)"
  by (simp add: afterRead_def)



lemma identityUser_Pid: "fst (identityUser X peer h) = Inr u \<Longrightarrow> Pid u = None \<and> Name u \<noteq> []"
  by (auto simp: identityUser_def ReadPacketDeadline_def Let_def
        split: list.splits sum.splits Packet.splits if_splits)


lemma afterRead_fields [simp]:
  "adcPeers (afterRead peer h) = adcPeers h" "peers (afterRead peer h) = peers h"
  "sched (afterRead peer h) = sched h" "released (afterRead peer h) = released h"
  "out (conns (afterRead peer h) c) = out (conns h c)"
  "wres (conns (afterRead peer h) c) = wres (conns h c)"
  "nextRes (conns (afterRead peer h) c) = nextRes (conns h c)"
  by (simp_all add: afterRead_def)

lemma Lock_afterRead: "Lock (afterRead peer h) = afterRead peer (Lock h)"
  by (simp add: afterRead_def Lock_conns)

lemma sendError_fields [simp]:
  "adcPeers (snd (sendError p sev code e h)) = adcPeers h"
  "peers (snd (sendError p sev code e h)) = peers h"
  "sched (snd (sendError p sev code e h)) = sched h"
  "released (snd (sendError p sev code e h)) = released h"
  by (simp_all add: connsOnly_fields[OF connsOnly_sendError])

text \<open>What \<open>sendError\<close> writes: the status, and the flush when the status went out.\<close>

lemma sendError_out:
  "map fst (out (conns (snd (sendError p sev code e h)) (conn (adcPeers h p)))) =
     map fst (out (conns h (conn (adcPeers h p)))) @
       OpWriteInfoMsg (Status sev code (Error e)) #
         (if nextRes (conns h (conn (adcPeers h p))) = None then [OpFlush] else [])"
  by (simp add: sendError_def sendInfo_def WriteInfoMsg_def Flush_def connDo_def
      split: option.splits)

lemma nextRes_err: "nextRes k = Some e \<Longrightarrow> \<exists>s. e = ErrTransport s"
  by (auto simp: nextRes_def split: list.splits)

lemma PeersJoin_loop_err: "fst (PeersJoin_loop X c ps h) = Some e \<Longrightarrow> \<exists>s. e = ErrTransport s"
proof (induction ps arbitrary: h)
  case Nil
  then show ?case by (auto simp: Flush_def dest: nextRes_err)
next
  case (Cons p ps)
  then show ?case
    by (auto simp: Let_def WriteBroadcast_def connDo_def split: option.splits dest: nextRes_err)
qed

lemma identityBind_cases:
  "nameTaken (Name u) (peers (Lock h)) \<Longrightarrow>
     identityBind u peer h = (Some errNickTaken, snd (sendError peer Fatal 22 errNickTaken (Lock h)))"
  "\<not> nameTaken (Name u) (peers (Lock h)) \<Longrightarrow> cidTaken (Id' u) (peers (Lock h)) \<Longrightarrow>
     identityBind u peer h = (Some ErrCIDTaken, snd (sendError peer Fatal 24 ErrCIDTaken (Lock h)))"
  "\<not> nameTaken (Name u) (peers (Lock h)) \<Longrightarrow> \<not> cidTaken (Id' u) (peers (Lock h)) \<Longrightarrow>
   nameTaken (Name u) (peers (Lock (Lock h))) \<Longrightarrow>
     identityBind u peer h =
       (Some errNickTaken, snd (sendError peer Fatal 22 errNickTaken (Unlock (Lock (Lock h)))))"
  "\<not> nameTaken (Name u) (peers (Lock h)) \<Longrightarrow> \<not> cidTaken (Id' u) (peers (Lock h)) \<Longrightarrow>
   \<not> nameTaken (Name u) (peers (Lock (Lock h))) \<Longrightarrow> cidTaken (Id' u) (peers (Lock (Lock h))) \<Longrightarrow>
     identityBind u peer h =
       (Some ErrCIDTaken, snd (sendError peer Fatal 24 ErrCIDTaken (Unlock (Lock (Lock h)))))"
  "\<not> nameTaken (Name u) (peers (Lock h)) \<Longrightarrow> \<not> cidTaken (Id' u) (peers (Lock h)) \<Longrightarrow>
   \<not> nameTaken (Name u) (peers (Lock (Lock h))) \<Longrightarrow> \<not> cidTaken (Id' u) (peers (Lock (Lock h))) \<Longrightarrow>
     identityBind u peer h =
       (None, Unlock ((Lock (Lock h))\<lparr>peers := reserve u (peers (Lock (Lock h)))\<rparr>))"
  by (simp_all add: identityBind_def Let_def RLock_def RUnlock_def nameTaken_def cidTaken_def
      reserve_def)

lemma identityBind_err:
  "fst (identityBind u peer h) = None \<or> fst (identityBind u peer h) = Some errNickTaken
    \<or> fst (identityBind u peer h) = Some ErrCIDTaken"
  by (simp add: identityBind_def Let_def)

text \<open>The third and the fourth part.\<close>

lemma unbind_fields [simp]:
  "adcPeers (unbind u h) = adcPeers h" "conns (unbind u h) = conns h"
  "released (unbind u h) = released h @ [peers (unbind u h)]"
  by (simp_all add: unbind_def Let_def)

lemma Peers_fields [simp]:
  "adcPeers (snd (Peers h)) = adcPeers h" "conns (snd (Peers h)) = conns h"
  "released (snd (Peers h)) = released h"
  by (simp_all add: Peers_def Let_def RLock_def RUnlock_def)

lemma PeersJoin_fields [simp]:
  "adcPeers (snd (PeersJoin X p ps h)) = adcPeers h"
  "peers (snd (PeersJoin X p ps h)) = peers h"
  "sched (snd (PeersJoin X p ps h)) = sched h"
  "released (snd (PeersJoin X p ps h)) = released h"
  by (simp_all add: connsOnly_fields[OF connsOnly_PeersJoin])

lemma WriteInfoMsg_fields [simp]:
  "adcPeers (snd (WriteInfoMsg c m h)) = adcPeers h"
  "peers (snd (WriteInfoMsg c m h)) = peers h"
  "sched (snd (WriteInfoMsg c m h)) = sched h"
  "released (snd (WriteInfoMsg c m h)) = released h"
  by (simp_all add: WriteInfoMsg_def)

lemma broadcastUserJoin_fields [simp]:
  "adcPeers (broadcastUserJoin X P ps h) = adcPeers h"
  "peers (broadcastUserJoin X P ps h) = peers h"
  "sched (broadcastUserJoin X P ps h) = sched h"
  "released (broadcastUserJoin X P ps h) = released h"
  by (simp_all add: connsOnly_fields[OF connsOnly_broadcastUserJoin])

lemma identityGreet_adcPeers:
  "adcPeers (snd (identityGreet X u peer h)) =
     (adcPeers h)(peer := (adcPeers h peer)\<lparr>user := fillIp4 u (Addr_String (addr (adcPeers h peer)))\<rparr>)"
  by (simp add: identityGreet_def Let_def split_beta fillIp4_def split: option.splits)


lemma PeersJoin_err: "fst (PeersJoin X p ps h) = Some e \<Longrightarrow> \<exists>s. e = ErrTransport s"
  unfolding PeersJoin_def by (rule PeersJoin_loop_err)

lemma WriteInfoMsg_err: "fst (WriteInfoMsg c m h) = Some e \<Longrightarrow> \<exists>s. e = ErrTransport s"
  by (simp add: WriteInfoMsg_def nextRes_err)

lemma identityGreet_err: "fst (identityGreet X u peer h) = Inl e \<Longrightarrow> \<exists>s. e = ErrTransport s"
  by (auto simp add: identityGreet_def Let_def split_beta
      split: option.splits dest: WriteInfoMsg_err PeersJoin_err)

lemma identityGreet_released: "\<exists>rs. released (snd (identityGreet X u peer h)) = released h @ rs"
  by (simp add: identityGreet_def Let_def split_beta split: option.splits)

lemma identityAccept_adcPeers [simp]: "adcPeers (identityAccept X u peer h) = adcPeers h"
  by (simp add: identityAccept_def Let_def)

lemma identityAccept_released:
  "released (identityAccept X u peer h) = released h @ [peers (identityAccept X u peer h)]"
  by (simp add: identityAccept_def Let_def)

section \<open>The Identity stage: the PID\<close>

text \<open>
  C1. The client's \<open>INF\<close> has been read and decoded to \<open>u\<close>. The stage fails with
  "invalid pid supplied" exactly when the CID claimed differs from the Tiger hash of
  the PID supplied. When it does, the hub writes a fatal status with code 27 to the
  peer (and flushes if the write went through), and returns with the registry (the
  three indices and the two reservation sets), the lock and the peers as they were.
\<close>

theorem pid_check:
  assumes rd: "inp (conns h (conn (adcPeers h peer))) = Inr (BroadcastPacket User_Cmd i d) # rest"
      and un: "UnmarshalUser X d = Inr u"
  shows "(fst (adcStageIdentity X peer h) = Some ErrInvalidPid \<longleftrightarrow> Id' u \<noteq> Hash X (Pid u))
    \<and> (Id' u \<noteq> Hash X (Pid u) \<longrightarrow>
         peers (snd (adcStageIdentity X peer h)) = peers h
       \<and> released (snd (adcStageIdentity X peer h)) = released h
       \<and> sched (snd (adcStageIdentity X peer h)) = sched h
       \<and> adcPeers (snd (adcStageIdentity X peer h)) = adcPeers h
       \<and> map fst (out (conns (snd (adcStageIdentity X peer h)) (conn (adcPeers h peer)))) =
           map fst (out (conns h (conn (adcPeers h peer)))) @
             OpWriteInfoMsg (Status Fatal 27 ''invalid pid supplied'') #
               (if nextRes (conns h (conn (adcPeers h peer))) = None then [OpFlush] else []))"
proof (cases "Id' u = Hash X (Pid u)")
  case False
  then have "adcStageIdentity X peer h =
      (Some ErrInvalidPid, snd (sendError peer Fatal 27 ErrInvalidPid (afterRead peer h)))"
    by (simp add: adcStageIdentity_def identityUser_INF[OF rd un])
  moreover have "conn (adcPeers h peer) = conn (adcPeers (afterRead peer h) peer)" by simp
  ultimately show ?thesis using False
    sendError_out[of peer Fatal 27 ErrInvalidPid "afterRead peer h"]
    by simp
next
  case True
  have "fst (adcStageIdentity X peer h) \<noteq> Some ErrInvalidPid"
  proof (cases "Name u = []")
    case True
    with \<open>Id' u = Hash X (Pid u)\<close> show ?thesis
      by (simp add: adcStageIdentity_def identityUser_INF[OF rd un])
  next
    case False
    let ?u = "u\<lparr>Pid := None\<rparr>" and ?h = "afterRead peer h"
    have eq: "adcStageIdentity X peer h =
       (case identityBind ?u peer ?h of
          (Some err, h2) \<Rightarrow> (Some err, h2)
        | (None, h2) \<Rightarrow>
            (case identityGreet X ?u peer h2 of
               (Inl err, h3) \<Rightarrow> (Some err, h3)
             | (Inr u', h3) \<Rightarrow> (None, identityAccept X u' peer h3)))"
      using False True by (simp add: adcStageIdentity_def identityUser_INF[OF rd un])
    show ?thesis
      unfolding eq using identityBind_err[of ?u peer ?h]
      by (auto simp: split_beta split: option.splits sum.splits dest: identityGreet_err)
  qed
  with True show ?thesis by simp
qed

theorem pid_check_witness:
  "inp (conns (hubRecv [userINF ''mallory'']) (conn (adcPeers (hubRecv [userINF ''mallory'']) 0)))
      = Inr (BroadcastPacket User_Cmd 1 ''mallory'') # []
   \<and> UnmarshalUser exX ''mallory'' = Inr (alice\<lparr>Pid := Some ''guess''\<rparr>)
   \<and> Id' (alice\<lparr>Pid := Some ''guess''\<rparr>) \<noteq> Hash exX (Pid (alice\<lparr>Pid := Some ''guess''\<rparr>))
   \<and> fst (adcStageIdentity exX 0 (hubRecv [userINF ''mallory''])) = Some ErrInvalidPid
   \<and> peers (snd (adcStageIdentity exX 0 (hubRecv [userINF ''mallory'']))) = reg0
   \<and> map fst (out (conns (snd (adcStageIdentity exX 0 (hubRecv [userINF ''mallory'']))) 0)) =
        [OpWriteInfoMsg (Status Fatal 27 ''invalid pid supplied''), OpFlush]"
  using pid_check [of "hubRecv [userINF ''mallory'']" 0 1 "''mallory''" "[]" exX
      "alice\<lparr>Pid := Some ''guess''\<rparr>"]
  by (simp add: ex_defs nextRes_def)

text \<open>
  C4. When the Identity stage returns without error, the user record cached on the
  peer has no PID.
\<close>

theorem pid_cleared:
  assumes "fst (adcStageIdentity X peer h) = None"
  shows "Pid (user (adcPeers (snd (adcStageIdentity X peer h)) peer)) = None"
proof -
  obtain r1 h1 where e1: "identityUser X peer h = (r1, h1)" by (cases "identityUser X peer h")
  with assms obtain u where r1: "r1 = Inr u"
    by (cases r1) (simp_all add: adcStageIdentity_def)
  from e1 r1 identityUser_Pid[of X peer h u] have pu: "Pid u = None" by simp
  obtain r2 h2 where e2: "identityBind u peer h1 = (r2, h2)" by (cases "identityBind u peer h1")
  with assms e1 r1 have r2: "r2 = None"
    by (cases r2) (simp_all add: adcStageIdentity_def)
  obtain r3 h3 where e3: "identityGreet X u peer h2 = (r3, h3)" by (cases "identityGreet X u peer h2")
  with assms e1 r1 e2 r2 obtain u' where r3: "r3 = Inr u'"
    by (cases r3) (simp_all add: adcStageIdentity_def)
  have h3: "adcPeers h3 = (adcPeers h2)(peer := (adcPeers h2 peer)\<lparr>user := fillIp4 u (Addr_String (addr (adcPeers h2 peer)))\<rparr>)"
    using identityGreet_adcPeers[of X u peer h2] e3 by simp
  have "snd (adcStageIdentity X peer h) = identityAccept X u' peer h3"
    using e1 r1 e2 r2 e3 r3 by (simp add: adcStageIdentity_def)
  then show ?thesis using h3 pu by (simp add: fillIp4_def)
qed


lemma alice_admitted: "fst (adcStageIdentity exX 0 (hubRecv [userINF ''alice''])) = None"
  by (simp add: stage_defs ex_defs Let_def)

theorem pid_cleared_witness:
  "fst (adcStageIdentity exX 0 (hubRecv [userINF ''alice''])) = None
   \<and> Pid (user (adcPeers (snd (adcStageIdentity exX 0 (hubRecv [userINF ''alice'']))) 0)) = None"
  using pid_cleared [of exX 0 "hubRecv [userINF ''alice'']"] alice_admitted by simp

lemma identityBind_adcPeers [simp]: "adcPeers (snd (identityBind u peer h)) = adcPeers h"
  by (simp add: identityBind_def Let_def RLock_def RUnlock_def)

lemma Unlock_afterRead: "Unlock (afterRead peer h) = afterRead peer (Unlock h)"
  by (simp add: afterRead_def Unlock_def)

text \<open>The stage from the second part on, when the first part has let the record
  through.\<close>

lemma stage_after_user:
  assumes rd: "inp (conns h (conn (adcPeers h peer))) = Inr (BroadcastPacket User_Cmd i d) # rest"
      and un: "UnmarshalUser X d = Inr u"
      and pid: "Id' u = Hash X (Pid u)" and nm: "Name u \<noteq> []"
  shows "adcStageIdentity X peer h =
       (case identityBind (u\<lparr>Pid := None\<rparr>) peer (afterRead peer h) of
          (Some err, h2) \<Rightarrow> (Some err, h2)
        | (None, h2) \<Rightarrow>
            (case identityGreet X (u\<lparr>Pid := None\<rparr>) peer h2 of
               (Inl err, h3) \<Rightarrow> (Some err, h3)
             | (Inr u', h3) \<Rightarrow> (None, identityAccept X u' peer h3)))"
  using pid nm by (simp add: adcStageIdentity_def identityUser_INF[OF rd un])

lemma stage_taken:
  assumes rd: "inp (conns h (conn (adcPeers h peer))) = Inr (BroadcastPacket User_Cmd i d) # rest"
      and un: "UnmarshalUser X d = Inr u"
      and pid: "Id' u = Hash X (Pid u)" and nm: "Name u \<noteq> []"
  shows
  "nameTaken (Name u) (peers (Lock h)) \<Longrightarrow>
     adcStageIdentity X peer h =
       (Some errNickTaken, snd (sendError peer Fatal 22 errNickTaken (afterRead peer (Lock h))))"
  "\<not> nameTaken (Name u) (peers (Lock h)) \<Longrightarrow> cidTaken (Id' u) (peers (Lock h)) \<Longrightarrow>
     adcStageIdentity X peer h =
       (Some ErrCIDTaken, snd (sendError peer Fatal 24 ErrCIDTaken (afterRead peer (Lock h))))"
  "\<not> nameTaken (Name u) (peers (Lock h)) \<Longrightarrow> \<not> cidTaken (Id' u) (peers (Lock h)) \<Longrightarrow>
   nameTaken (Name u) (peers (Lock (Lock h))) \<Longrightarrow>
     adcStageIdentity X peer h =
       (Some errNickTaken,
        snd (sendError peer Fatal 22 errNickTaken (afterRead peer (Unlock (Lock (Lock h))))))"
  "\<not> nameTaken (Name u) (peers (Lock h)) \<Longrightarrow> \<not> cidTaken (Id' u) (peers (Lock h)) \<Longrightarrow>
   \<not> nameTaken (Name u) (peers (Lock (Lock h))) \<Longrightarrow> cidTaken (Id' u) (peers (Lock (Lock h))) \<Longrightarrow>
     adcStageIdentity X peer h =
       (Some ErrCIDTaken,
        snd (sendError peer Fatal 24 ErrCIDTaken (afterRead peer (Unlock (Lock (Lock h))))))"
  "\<not> nameTaken (Name u) (peers (Lock h)) \<Longrightarrow> \<not> cidTaken (Id' u) (peers (Lock h)) \<Longrightarrow>
   \<not> nameTaken (Name u) (peers (Lock (Lock h))) \<Longrightarrow> \<not> cidTaken (Id' u) (peers (Lock (Lock h))) \<Longrightarrow>
     adcStageIdentity X peer h =
       (case identityGreet X (u\<lparr>Pid := None\<rparr>) peer
               (Unlock ((Lock (Lock (afterRead peer h)))\<lparr>peers := reserve u (peers (Lock (Lock h)))\<rparr>)) of
          (Inl err, h3) \<Rightarrow> (Some err, h3)
        | (Inr u', h3) \<Rightarrow> (None, identityAccept X u' peer h3))"
  unfolding stage_after_user[OF rd un pid nm]
  by (simp_all add: identityBind_cases Lock_afterRead Unlock_afterRead reserve_def)

lemma sendError_out_afterRead:
  assumes "adcPeers g = adcPeers h" and "conns g = conns h"
  shows "map fst (out (conns (snd (sendError peer sev code e (afterRead peer g))) (conn (adcPeers h peer)))) =
     map fst (out (conns h (conn (adcPeers h peer)))) @
       OpWriteInfoMsg (Status sev code (Error e)) #
         (if nextRes (conns h (conn (adcPeers h peer))) = None then [OpFlush] else [])"
proof -
  have "out (conns (afterRead peer g) c) = out (conns h c)"
    "nextRes (conns (afterRead peer g) c) = nextRes (conns h c)" for c
    using assms by (simp_all add: afterRead_def nextRes_def)
  then show ?thesis
    using sendError_out[of peer sev code e "afterRead peer g"] assms(1) by simp
qed

section \<open>The Identity stage: taken nicks and CIDs\<close>

text \<open>
  C3. The record has passed the checks of the PID and the nick, and the check under
  the read lock has found the nick and the CID free. \<open>peers (Lock (Lock h))\<close> is the
  registry as the stage finds it when it takes the write lock. If the nick is taken
  there (reserved or admitted), the stage fails with \<open>errNickTaken\<close> and writes a
  fatal status with code 22; if the nick is free and the CID is taken, it fails with
  "CID taken" and writes code 24. In both cases the registry it leaves, and has
  released, is the one it found. If both are free, the registry released at the
  unlock is the one found with the nick and the CID both reserved, and the stage does
  not fail with either of the two errors.
\<close>

theorem uniqueness_commit:
  assumes rd: "inp (conns h (conn (adcPeers h peer))) = Inr (BroadcastPacket User_Cmd i d) # rest"
      and un: "UnmarshalUser X d = Inr u"
      and pid: "Id' u = Hash X (Pid u)" and nm: "Name u \<noteq> []"
      and pre: "\<not> nameTaken (Name u) (peers (Lock h))" "\<not> cidTaken (Id' u) (peers (Lock h))"
  shows
   "(nameTaken (Name u) (peers (Lock (Lock h))) \<longrightarrow>
       fst (adcStageIdentity X peer h) = Some errNickTaken
     \<and> peers (snd (adcStageIdentity X peer h)) = peers (Lock (Lock h))
     \<and> released (snd (adcStageIdentity X peer h)) = released h @ [peers (Lock (Lock h))]
     \<and> map fst (out (conns (snd (adcStageIdentity X peer h)) (conn (adcPeers h peer)))) =
         map fst (out (conns h (conn (adcPeers h peer)))) @
           OpWriteInfoMsg (Status Fatal 22 (Error errNickTaken)) #
             (if nextRes (conns h (conn (adcPeers h peer))) = None then [OpFlush] else []))
    \<and> (\<not> nameTaken (Name u) (peers (Lock (Lock h))) \<and> cidTaken (Id' u) (peers (Lock (Lock h))) \<longrightarrow>
       fst (adcStageIdentity X peer h) = Some ErrCIDTaken
     \<and> peers (snd (adcStageIdentity X peer h)) = peers (Lock (Lock h))
     \<and> released (snd (adcStageIdentity X peer h)) = released h @ [peers (Lock (Lock h))]
     \<and> map fst (out (conns (snd (adcStageIdentity X peer h)) (conn (adcPeers h peer)))) =
         map fst (out (conns h (conn (adcPeers h peer)))) @
           OpWriteInfoMsg (Status Fatal 24 (Error ErrCIDTaken)) #
             (if nextRes (conns h (conn (adcPeers h peer))) = None then [OpFlush] else []))
    \<and> (\<not> nameTaken (Name u) (peers (Lock (Lock h))) \<and> \<not> cidTaken (Id' u) (peers (Lock (Lock h))) \<longrightarrow>
       fst (adcStageIdentity X peer h) \<noteq> Some errNickTaken
     \<and> fst (adcStageIdentity X peer h) \<noteq> Some ErrCIDTaken
     \<and> (\<exists>rs. released (snd (adcStageIdentity X peer h)) =
           released h @ reserve u (peers (Lock (Lock h))) # rs))"
proof (intro conjI impI)
  assume a: "\<not> nameTaken (Name u) (peers (Lock (Lock h))) \<and> \<not> cidTaken (Id' u) (peers (Lock (Lock h)))"
  let ?g = "Unlock ((Lock (Lock (afterRead peer h)))\<lparr>peers := reserve u (peers (Lock (Lock h)))\<rparr>)"
  let ?u = "u\<lparr>Pid := None\<rparr>"
  have eq: "adcStageIdentity X peer h =
       (case identityGreet X ?u peer ?g of
          (Inl err, h3) \<Rightarrow> (Some err, h3)
        | (Inr u', h3) \<Rightarrow> (None, identityAccept X u' peer h3))"
    using stage_taken(5)[OF rd un pid nm pre] a by simp
  show "fst (adcStageIdentity X peer h) \<noteq> Some errNickTaken"
    "fst (adcStageIdentity X peer h) \<noteq> Some ErrCIDTaken"
    unfolding eq by (auto simp: split_beta split: sum.splits dest: identityGreet_err)
  have g: "released ?g = released h @ [reserve u (peers (Lock (Lock h)))]"
    by (simp add: Lock_afterRead)
  obtain rs where rs: "released (snd (identityGreet X ?u peer ?g)) = released ?g @ rs"
    using identityGreet_released by blast
  show "\<exists>rs. released (snd (adcStageIdentity X peer h)) =
           released h @ reserve u (peers (Lock (Lock h))) # rs"
    unfolding eq using rs g
    by (auto simp: split_beta identityAccept_released split: sum.splits)
qed (simp_all add: stage_taken(3,4)[OF rd un pid nm pre] sendError_out_afterRead)


theorem uniqueness_commit_witness:
  "inp (conns hubRace (conn (adcPeers hubRace 0))) = Inr (BroadcastPacket User_Cmd 1 ''alice'') # []
   \<and> UnmarshalUser exX ''alice'' = Inr alice
   \<and> Id' alice = Hash exX (Pid alice) \<and> Name alice \<noteq> []
   \<and> \<not> nameTaken (Name alice) (peers (Lock hubRace))
   \<and> \<not> cidTaken (Id' alice) (peers (Lock hubRace))
   \<and> nameTaken (Name alice) (peers (Lock (Lock hubRace)))
   \<and> fst (adcStageIdentity exX 0 hubRace) = Some errNickTaken
   \<and> peers (snd (adcStageIdentity exX 0 hubRace)) = raceNick reg0
   \<and> released (snd (adcStageIdentity exX 0 hubRace)) = [raceNick reg0]"
  using uniqueness_commit [of hubRace 0 1 "''alice''" "[]" exX alice]
  by (simp add: hubRace_def ex_defs Lock_def nameTaken_def cidTaken_def raceNick_def)



section \<open>The Identity stage: admission\<close>
























section \<open>The Identity stage: the IPv4 field\<close>

text \<open>
  The record that the stage caches. The client's \<open>INF\<close> has been read and decoded to
  \<open>u\<close>. Whatever the stage returns, the record found on the peer afterwards is the
  one that was there before, or the client's record with the PID cleared and an empty
  IPv4 field set to \<open>peer.addr.String()\<close>, a non-empty one kept. When the stage
  returns without error it is the latter.
\<close>

lemma cached_record:
  assumes rd: "inp (conns h (conn (adcPeers h peer))) = Inr (BroadcastPacket User_Cmd i d) # rest"
      and un: "UnmarshalUser X d = Inr u"
  shows
   "(user (adcPeers (snd (adcStageIdentity X peer h)) peer) = user (adcPeers h peer)
     \<or> user (adcPeers (snd (adcStageIdentity X peer h)) peer) =
         (if Ip4 u = [] then u\<lparr>Pid := None, Ip4 := Addr_String (addr (adcPeers h peer))\<rparr> else u\<lparr>Pid := None\<rparr>))
    \<and> (fst (adcStageIdentity X peer h) = None \<longrightarrow>
         user (adcPeers (snd (adcStageIdentity X peer h)) peer) =
         (if Ip4 u = [] then u\<lparr>Pid := None, Ip4 := Addr_String (addr (adcPeers h peer))\<rparr> else u\<lparr>Pid := None\<rparr>))"
proof (cases "Id' u = Hash X (Pid u) \<and> Name u \<noteq> []")
  case False
  then have "adcPeers (snd (adcStageIdentity X peer h)) = adcPeers h
      \<and> fst (adcStageIdentity X peer h) \<noteq> None"
    by (auto simp: adcStageIdentity_def identityUser_INF[OF rd un])
  then show ?thesis by auto
next
  case True
  let ?u = "u\<lparr>Pid := None\<rparr>"
  note eq = stage_after_user[OF rd un conjunct1[OF True] conjunct2[OF True]]
  obtain r2 h2 where e2: "identityBind ?u peer (afterRead peer h) = (r2, h2)"
    by (cases "identityBind ?u peer (afterRead peer h)")
  have h2: "adcPeers h2 = adcPeers h"
    using identityBind_adcPeers[of ?u peer "afterRead peer h"] e2 by simp
  show ?thesis
  proof (cases r2)
    case (Some e)
    then show ?thesis unfolding eq e2 using h2 by simp
  next
    case None
    obtain r3 h3 where e3: "identityGreet X ?u peer h2 = (r3, h3)"
      by (cases "identityGreet X ?u peer h2")
    have h3: "user (adcPeers h3 peer) = fillIp4 ?u (Addr_String (addr (adcPeers h peer)))"
      using identityGreet_adcPeers[of X ?u peer h2] e3 h2 by simp
    have "user (adcPeers (snd (adcStageIdentity X peer h)) peer) = fillIp4 ?u (Addr_String (addr (adcPeers h peer)))"
      unfolding eq e2 using None e3 h3 by (cases r3) simp_all
    then show ?thesis by (simp add: fillIp4_def)
  qed
qed

text \<open>
  C8. A client that connects from address \<open>10.0.0.7\<close>, port \<open>4111\<close>, and sends an
  \<open>INF\<close> with no IPv4 field: the stage admits it, and the IPv4 field of the cached
  record is \<open>10.0.0.7:4111\<close>, the address with the port, not the IP address of the
  connection. The same client sending the IPv4 field \<open>10.1.1.1\<close> has it cached as
  sent.
\<close>

theorem ip4_gets_host_port:
  "Ip4 alice = []
   \<and> IP (addr (adcPeers (hubRecv [userINF ''alice'']) 0)) = ''10.0.0.7''
   \<and> fst (adcStageIdentity exX 0 (hubRecv [userINF ''alice''])) = None
   \<and> Ip4 (user (adcPeers (snd (adcStageIdentity exX 0 (hubRecv [userINF ''alice'']))) 0)) =
        ''10.0.0.7:4111''
   \<and> Ip4 (user (adcPeers (snd (adcStageIdentity exX 0 (hubRecv [userINF ''alice'']))) 0)) \<noteq>
        IP (addr (adcPeers (hubRecv [userINF ''alice'']) 0))
   \<and> fst (adcStageIdentity exX 0 (hubRecv [userINF ''alice 10.1.1.1''])) = None
   \<and> Ip4 (user (adcPeers (snd (adcStageIdentity exX 0 (hubRecv [userINF ''alice 10.1.1.1'']))) 0)) =
        ''10.1.1.1''"
  by (simp add: stage_defs ex_defs Let_def)

section \<open>The Identity stage: the status write\<close>

text \<open>
  C7. A run in which the write of the success status fails (the second write on the
  connection, "broken pipe") and every other write succeeds: the stage returns no
  error and admits the peer.
\<close>

theorem status_error_ignored:
  "fst (adcStageIdentity exX 0 hubStatusFails) = None
   \<and> map_of (byName (peers (snd (adcStageIdentity exX 0 hubStatusFails)))) ''alice'' = Some (AdcPeer 0)
   \<and> out (conns (snd (adcStageIdentity exX 0 hubStatusFails)) 0) ! 1 =
       (OpWriteInfoMsg (Status Success 0 ''powered by Gophers''), Some (ErrTransport ''broken pipe''))"
  by (simp add: stage_defs ex_defs hubStatusFails_def Let_def)

section \<open>The serving loop: other packets\<close>

declare adcServePeer.simps [simp del]

lemma nextRes_wres: "nextRes k = Some e \<Longrightarrow> \<exists>s. e = ErrTransport s \<and> Some s \<in> set (wres k)"
  by (auto simp: nextRes_def split: list.splits)

lemma set_tl_wres: "x \<in> set (tl w) \<Longrightarrow> x \<in> set w"
  by (cases w) auto

lemma servePacket_other:
  "\<not> isRouted p \<Longrightarrow> servePacket peer p h = (None, logPacket (sid (adcPeers h peer)) p h)"
  by (cases p) (simp_all add: isRouted_def servePacket_def)

lemma servePacket_wres:
  "servePacket peer p h = (r, h') \<Longrightarrow> x \<in> set (wres (conns h' c)) \<Longrightarrow> x \<in> set (wres (conns h c))"
  unfolding servePacket_def WritePacket_def Flush_def Peers_def RLock_def RUnlock_def Lock_def
    go_def logPacket_def
  by (auto split: Packet.splits if_splits prod.splits option.splits list.splits
       simp: Let_def connDo_def dest!: set_tl_wres)

lemma servePacket_returns:
  "servePacket peer p h = (Some e, h') \<Longrightarrow>
     sidMismatch (sid (adcPeers h peer)) p e
     \<or> isEcho p \<and> (\<exists>s. e = ErrTransport s \<and> Some s \<in> set (wres (conns h (conn (adcPeers h peer)))))"
  unfolding servePacket_def WritePacket_def Flush_def Peers_def RLock_def RUnlock_def Lock_def
    go_def logPacket_def
  by (auto split: Packet.splits if_splits prod.splits option.splits
       simp: Let_def connDo_def sidMismatch_def isEcho_def dest!: nextRes_wres set_tl_wres)

lemma serve_ends:
  "fst (adcServePeer peer h) = Returns r \<Longrightarrow>
     (r = None \<and> Inl EOF \<in> set (inp (conns h (conn (adcPeers h peer)))))
   \<or> (\<exists>e. r = Some e \<and>
        (Inl e \<in> set (inp (conns h (conn (adcPeers h peer))))
         \<or> (\<exists>p. Inr p \<in> set (inp (conns h (conn (adcPeers h peer))))
                \<and> sidMismatch (sid (adcPeers h peer)) p e)
         \<or> (\<exists>p s. Inr p \<in> set (inp (conns h (conn (adcPeers h peer)))) \<and> isEcho p
                \<and> e = ErrTransport s \<and> Some s \<in> set (wres (conns h (conn (adcPeers h peer)))))))"
proof (induction peer h arbitrary: r rule: adcServePeer.induct)
  case (1 peer h)
  let ?c = "conn (adcPeers h peer)"
  show ?case
  proof (cases "inp (conns h ?c)")
    case Nil
    with "1.prems" show ?thesis
      by (simp add: adcServePeer.simps[of peer h] ReadPacket_def)
  next
    case (Cons x rest)
    let ?h1 = "h\<lparr>conns := (conns h)(?c := (conns h ?c)\<lparr>inp := rest\<rparr>)\<rparr>"
    have rp: "ReadPacket ?c h = Some (x, ?h1)" using Cons by (simp add: ReadPacket_def)
    show ?thesis
    proof (cases x)
      case (Inl err)
      with "1.prems" rp Cons show ?thesis
        by (auto simp: adcServePeer.simps[of peer h] split: if_splits)
    next
      case (Inr p)
      obtain r2 h2 where sp: "servePacket peer p ?h1 = (r2, h2)" by (cases "servePacket peer p ?h1")
      show ?thesis
      proof (cases r2)
        case (Some e)
        with "1.prems" rp Inr sp have r: "r = Some e"
          by (simp add: adcServePeer.simps[of peer h])
        from servePacket_returns[of peer p ?h1 e h2] sp Some
        have "sidMismatch (sid (adcPeers h peer)) p e
          \<or> isEcho p \<and> (\<exists>s. e = ErrTransport s \<and> Some s \<in> set (wres (conns h ?c)))"
          by simp
        with r Cons Inr show ?thesis by auto
      next
        case None
        with "1.prems" rp Inr sp have r: "fst (adcServePeer peer h2) = Returns r"
          by (simp add: adcServePeer.simps[of peer h])
        from servePacket_inp[of peer p ?h1 h2] sp None
        have ap: "adcPeers h2 = adcPeers h" and ip: "inp (conns h2 ?c) = rest" by simp_all
        have wr: "x \<in> set (wres (conns h2 ?c)) \<Longrightarrow> x \<in> set (wres (conns h ?c))" for x
          using servePacket_wres[OF sp, of x ?c] by simp
        from "1.IH"[OF rp refl Inr sp[symmetric] None r] 
        show ?thesis unfolding ap ip using Cons wr by auto
      qed
    qed
  qed
qed

text \<open>
  C10. A packet that is not a broadcast, an echo or a direct packet makes the body of
  the loop do one thing: log it. Nothing is written, no goroutine is started and no
  error is returned, and the loop goes on with the packets that follow. When the loop
  returns, it returns \<open>nil\<close> on an \<open>io.EOF\<close> of the connection, or an error that is
  an error of a read, the error of a broadcast, echo or direct packet whose SID is not
  the peer's, or the error of a write or flush that answered an echo packet.
\<close>

theorem serve_other_packets:
  "(\<not> isRouted p \<longrightarrow>
      servePacket peer p h = (None, logPacket (sid (adcPeers h peer)) p h))
   \<and> (\<not> isRouted p \<and> inp (conns h (conn (adcPeers h peer))) = Inr p # rest \<longrightarrow>
      adcServePeer peer h =
        adcServePeer peer (logPacket (sid (adcPeers h peer)) p (afterRead peer h)))
   \<and> (fst (adcServePeer peer h) = Returns r \<longrightarrow>
       (r = None \<and> Inl EOF \<in> set (inp (conns h (conn (adcPeers h peer)))))
     \<or> (\<exists>e. r = Some e \<and>
        (Inl e \<in> set (inp (conns h (conn (adcPeers h peer))))
         \<or> (\<exists>p. Inr p \<in> set (inp (conns h (conn (adcPeers h peer))))
                \<and> sidMismatch (sid (adcPeers h peer)) p e)
         \<or> (\<exists>p s. Inr p \<in> set (inp (conns h (conn (adcPeers h peer)))) \<and> isEcho p
                \<and> e = ErrTransport s \<and> Some s \<in> set (wres (conns h (conn (adcPeers h peer))))))))"
proof (intro conjI impI)
  assume "\<not> isRouted p"
  then show "servePacket peer p h = (None, logPacket (sid (adcPeers h peer)) p h)"
    by (rule servePacket_other)
next
  assume a: "\<not> isRouted p \<and> inp (conns h (conn (adcPeers h peer))) = Inr p # rest"
  then have "ReadPacket (conn (adcPeers h peer)) h = Some (Inr p, afterRead peer h)"
    by (simp add: ReadPacket_def afterRead_def)
  with a show "adcServePeer peer h =
        adcServePeer peer (logPacket (sid (adcPeers h peer)) p (afterRead peer h))"
    by (simp add: adcServePeer.simps[of peer h] servePacket_other)
next
  assume "fst (adcServePeer peer h) = Returns r"
  then show "(r = None \<and> Inl EOF \<in> set (inp (conns h (conn (adcPeers h peer)))))
     \<or> (\<exists>e. r = Some e \<and>
        (Inl e \<in> set (inp (conns h (conn (adcPeers h peer))))
         \<or> (\<exists>p. Inr p \<in> set (inp (conns h (conn (adcPeers h peer))))
                \<and> sidMismatch (sid (adcPeers h peer)) p e)
         \<or> (\<exists>p s. Inr p \<in> set (inp (conns h (conn (adcPeers h peer)))) \<and> isEcho p
                \<and> e = ErrTransport s \<and> Some s \<in> set (wres (conns h (conn (adcPeers h peer)))))))"
    by (rule serve_ends)
qed

theorem serve_other_packets_witness:
  "\<not> isRouted (InfoPacket ''STA'' ''000 ok'')
   \<and> inp (conns hubIdle (conn (adcPeers hubIdle 0))) = Inr (InfoPacket ''STA'' ''000 ok'') # [Inl EOF]
   \<and> servePacket 0 (InfoPacket ''STA'' ''000 ok'') hubIdle =
       (None, hubIdle\<lparr>logged := [(1, InfoPacket ''STA'' ''000 ok'')]\<rparr>)
   \<and> fst (adcServePeer 0 hubIdle) = Returns None
   \<and> logged (snd (adcServePeer 0 hubIdle)) = [(1, InfoPacket ''STA'' ''000 ok'')]
   \<and> goroutines (snd (adcServePeer 0 hubIdle)) = []
   \<and> out (conns (snd (adcServePeer 0 hubIdle)) 0) = []"
  using serve_other_packets [of "InfoPacket ''STA'' ''000 ok''" 0 hubIdle "[Inl EOF]" None]
  by (simp add: isRouted_def hubIdle_def ex_defs logPacket_def afterRead_def
      adcServePeer.simps[of 0] ReadPacket_def)

section \<open>Routing: a broadcast\<close>

lemma adcBroadcast_loop_frame:
  "adcPeers (snd (adcBroadcast_loop p ps h)) = adcPeers h
   \<and> nmdcPeers (snd (adcBroadcast_loop p ps h)) = nmdcPeers h
   \<and> (\<forall>P \<in> set (fst (adcBroadcast_loop p ps h)). \<exists>n. P = NmdcPeer n)"
proof (induction ps arbitrary: h)
  case Nil
  show ?case by simp
next
  case (Cons P ps)
  show ?case
  proof (cases P)
    case (AdcPeer a)
    then show ?thesis using Cons.IH
      by (simp add: WritePacket_def Flush_def connDo_def)
  next
    case (NmdcPeer n)
    then show ?thesis using Cons.IH[of h]
      by (simp add: split_beta)
  qed
qed

lemma nativesOn_cong: "adcPeers h' = adcPeers h \<Longrightarrow> nativesOn h' c ps = nativesOn h c ps"
  by (auto simp: nativesOn_def intro!: filter_cong split: Peer.splits)

lemma adcBroadcast_loop_out:
  "map fst (out (conns (snd (adcBroadcast_loop p ps h)) c)) =
     map fst (out (conns h c)) @ concat (map (\<lambda>_. [OpWritePacket p, OpFlush]) (nativesOn h c ps))"
proof (induction ps arbitrary: h)
  case Nil
  show ?case by (simp add: nativesOn_def)
next
  case (Cons P ps)
  show ?case
  proof (cases P)
    case (AdcPeer a)
    let ?h2 = "h\<lparr>conns := (conns h)(conn (adcPeers h a) :=
        perform OpFlush (perform (OpWritePacket p) (conns h (conn (adcPeers h a)))))\<rparr>"
    have st: "adcBroadcast_loop p (P # ps) h = adcBroadcast_loop p ps ?h2"
      using AdcPeer by (simp add: WritePacket_def Flush_def connDo_def)
    have n: "nativesOn ?h2 c ps = nativesOn h c ps" by (rule nativesOn_cong) simp
    show ?thesis unfolding st Cons.IH[of ?h2] n
      using AdcPeer by (simp add: nativesOn_def)
  next
    case (NmdcPeer n)
    then show ?thesis using Cons.IH[of h]
      by (simp add: split_beta nativesOn_def)
  qed
qed

lemma broadcastChat_nmdc_conns:
  "\<forall>P \<in> set ps. \<exists>n. P = NmdcPeer n \<Longrightarrow> conns (broadcastChat from text ps h) = conns h"
  by (induction ps arbitrary: h) auto

lemma adcBroadcast_out:
  "map fst (out (conns (adcBroadcast X p from (Some L) h) c)) =
     map fst (out (conns h c)) @ concat (map (\<lambda>_. [OpWritePacket p, OpFlush]) (nativesOn h c L))"
proof -
  obtain nm h2 where l: "adcBroadcast_loop p L h = (nm, h2)" by (cases "adcBroadcast_loop p L h")
  from adcBroadcast_loop_frame[of p L h] l have nm: "\<forall>P \<in> set nm. \<exists>n. P = NmdcPeer n" by simp
  have "conns (adcBroadcast X p from (Some L) h) = conns h2"
    using l nm by (simp add: adcBroadcast_def broadcastChat_nmdc_conns
        split: sum.splits Message.splits)
  then show ?thesis using adcBroadcast_loop_out[of p L h c] l by simp
qed

text \<open>
  C6. Peer \<open>A\<close> is admitted (the three indices hold it when the serving loop takes
  its snapshot) and sends a broadcast packet with its own SID. The loop starts
  \<open>adcBroadcast\<close> with the packet and the snapshot; the snapshot holds \<open>A\<close>; and
  whenever that call runs, it adds to what has been written on each connection one
  \<open>WritePacket\<close> of the very packet followed by one \<open>Flush\<close> for every native peer of
  the snapshot on that connection, and nothing else. \<open>A\<close> is among the native peers
  on its own connection.
\<close>

theorem broadcast_reaches_sender:
  assumes adm: "indexed (AdcPeer A) (sid (adcPeers h A)) c n (peers (RLock h))"
  shows "servePacket A (BroadcastPacket name (sid (adcPeers h A)) d) h =
       (None, logPacket (sid (adcPeers h A)) (BroadcastPacket name (sid (adcPeers h A)) d)
          (go (GoBroadcast (BroadcastPacket name (sid (adcPeers h A)) d) (AdcPeer A)
                 (Some (listPeers (RLock h)))) (RLock h)))
    \<and> AdcPeer A \<in> set (listPeers (RLock h))
    \<and> (\<forall>g k. map fst (out (conns (runTask X (GoBroadcast (BroadcastPacket name (sid (adcPeers h A)) d)
                  (AdcPeer A) (Some (listPeers (RLock h)))) g) k)) =
          map fst (out (conns g k)) @
            concat (map (\<lambda>_. [OpWritePacket (BroadcastPacket name (sid (adcPeers h A)) d), OpFlush])
                     (nativesOn g k (listPeers (RLock h)))))
    \<and> (\<forall>g. AdcPeer A \<in> set (nativesOn g (conn (adcPeers g A)) (listPeers (RLock h))))"
proof (intro conjI allI)
  show "servePacket A (BroadcastPacket name (sid (adcPeers h A)) d) h =
       (None, logPacket (sid (adcPeers h A)) (BroadcastPacket name (sid (adcPeers h A)) d)
          (go (GoBroadcast (BroadcastPacket name (sid (adcPeers h A)) d) (AdcPeer A)
                 (Some (listPeers (RLock h)))) (RLock h)))"
    by (simp add: servePacket_def Peers_def Let_def RUnlock_def RLock_def)
  from adm have "map_of (bySID (peers (RLock h))) (sid (adcPeers h A)) = Some (AdcPeer A)"
    by (simp add: indexed_def)
  then have "(sid (adcPeers h A), AdcPeer A) \<in> set (bySID (peers (RLock h)))"
    by (rule map_of_SomeD)
  then show in_L: "AdcPeer A \<in> set (listPeers (RLock h))"
    by (force simp: listPeers_def)
  show "AdcPeer A \<in> set (nativesOn g (conn (adcPeers g A)) (listPeers (RLock h)))" for g
    using in_L by (simp add: nativesOn_def)
qed (simp add: runTask_def adcBroadcast_out)

theorem broadcast_reaches_sender_witness:
  "indexed (AdcPeer 0) (sid (adcPeers hubServing 0)) ''dip'' ''alice'' (peers (RLock hubServing))
   \<and> goroutines (snd (servePacket 0 (BroadcastPacket ''MSG'' 1 ''hello'') hubServing)) =
       [GoBroadcast (BroadcastPacket ''MSG'' 1 ''hello'') (AdcPeer 0) (Some [AdcPeer 0])]
   \<and> map fst (out (conns (runTask exX (GoBroadcast (BroadcastPacket ''MSG'' 1 ''hello'') (AdcPeer 0)
         (Some [AdcPeer 0])) hubServing) 0)) =
       [OpWritePacket (BroadcastPacket ''MSG'' 1 ''hello''), OpFlush]"
  using broadcast_reaches_sender [of 0 hubServing "''dip''" "''alice''" "''MSG''" "''hello''" exX]
  by (simp add: hubServing_def ex_defs indexed_def RLock_def Lock_def listPeers_def nativesOn_def
      logPacket_def go_def)

section \<open>The Protocol stage: features\<close>

text \<open>
  C5. The client's \<open>SUP\<close> has been read and decoded to \<open>sup'\<close>. If neither \<open>BASE\<close>
  nor \<open>BAS0\<close> is in the intersection with the hub's features, the stage fails with
  \<open>ErrNoBASE\<close>; if one of them is but \<open>TIGR\<close> is not, it fails with \<open>ErrNoTIGR\<close>, a
  different error; in both cases nothing is written and no SID is allocated. In every
  other case the stage goes on to write: the hub's \<open>SUP\<close> is the first thing written;
  if that write succeeds, a SID is allocated (the counter moves on by one) and the
  assignment of that SID is written next; and if none of the three calls on the
  connection fails, the stage returns a new peer with that SID and the mutual
  features, having written \<open>SUP\<close>, the SID and a flush.
\<close>

theorem protocol_features:
  assumes rd: "inp (conns h c) = Inr (HubPacket Supported_Cmd data) # rest"
      and un: "UnmarshalSupported X data = Inr sup'"
  shows
    "(\<not> IsSet (Intersect hubFeatures sup') FeaBASE \<and> \<not> IsSet (Intersect hubFeatures sup') FeaBAS0 \<longrightarrow>
        fst (adcStageProtocol X c h) = Inl ErrNoBASE
        \<and> out (conns (snd (adcStageProtocol X c h)) c) = out (conns h c)
        \<and> lastSID (snd (adcStageProtocol X c h)) = lastSID h)
     \<and> ((IsSet (Intersect hubFeatures sup') FeaBASE \<or> IsSet (Intersect hubFeatures sup') FeaBAS0)
          \<and> \<not> IsSet (Intersect hubFeatures sup') FeaTIGR \<longrightarrow>
        fst (adcStageProtocol X c h) = Inl ErrNoTIGR
        \<and> out (conns (snd (adcStageProtocol X c h)) c) = out (conns h c)
        \<and> lastSID (snd (adcStageProtocol X c h)) = lastSID h)
     \<and> ((IsSet (Intersect hubFeatures sup') FeaBASE \<or> IsSet (Intersect hubFeatures sup') FeaBAS0)
          \<and> IsSet (Intersect hubFeatures sup') FeaTIGR \<longrightarrow>
        (\<exists>l. map fst (out (conns (snd (adcStageProtocol X c h)) c)) =
               map fst (out (conns h c)) @ OpWriteInfoMsg (Supported hubFeatures) # l)
        \<and> (nextRes (conns h c) = None \<longrightarrow>
             lastSID (snd (adcStageProtocol X c h)) = Suc (lastSID h)
             \<and> (\<exists>l. map fst (out (conns (snd (adcStageProtocol X c h)) c)) =
                 map fst (out (conns h c)) @ OpWriteInfoMsg (Supported hubFeatures)
                   # OpWriteInfoMsg (SIDAssign (Suc (lastSID h))) # l))
        \<and> (list_all (\<lambda>r. r = None) (take 3 (wres (conns h c))) \<longrightarrow>
             fst (adcStageProtocol X c h) = Inr (allocated h)
             \<and> sid (adcPeers (snd (adcStageProtocol X c h)) (allocated h)) = Suc (lastSID h)
             \<and> fea (adcPeers (snd (adcStageProtocol X c h)) (allocated h)) = Intersect hubFeatures sup'
             \<and> out (conns (snd (adcStageProtocol X c h)) c) =
                 out (conns h c) @ [(OpWriteInfoMsg (Supported hubFeatures), None),
                   (OpWriteInfoMsg (SIDAssign (Suc (lastSID h))), None), (OpFlush, None)]))"
proof -
  let ?k = "(conns h c)\<lparr>inp := rest\<rparr>"
  let ?A = "OpWriteInfoMsg (Supported hubFeatures)"
  let ?B = "OpWriteInfoMsg (SIDAssign (Suc (lastSID h)))"
  have rd': "ReadPacketDeadline c h =
      (Inr (HubPacket Supported_Cmd data), h\<lparr>conns := (conns h)(c := ?k)\<rparr>)"
    using rd by (simp add: ReadPacketDeadline_def)
  have ok3: "nextRes (conns h c) = None \<and> nextRes (perform ?A (conns h c)) = None
      \<and> nextRes (perform ?B (perform ?A (conns h c))) = None"
    if "list_all (\<lambda>r. r = None) (take 3 (wres (conns h c)))"
  proof -
    from that have a: "list_all (\<lambda>r. r = None) (take (Suc 2) (wres (conns h c)))"
      by (simp add: numeral_3_eq_3 numeral_2_eq_2)
    from writes_ok[OF a, of ?A] have b: "nextRes (conns h c) = None"
      "list_all (\<lambda>r. r = None) (take (Suc 1) (wres (perform ?A (conns h c))))"
      by (simp_all add: numeral_2_eq_2)
    from writes_ok[OF b(2), of ?B] have c: "nextRes (perform ?A (conns h c)) = None"
      "list_all (\<lambda>r. r = None) (take (Suc 0) (wres (perform ?B (perform ?A (conns h c)))))"
      by simp_all
    from writes_ok[OF c(2), of OpFlush] b(1) c(1) show ?thesis by simp
  qed
  show ?thesis
    unfolding adcStageProtocol_def rd'
    apply (simp only: prod.case sum.case Packet.case un if_False simp_thms Let_def)
    apply (intro conjI impI)
    apply (simp_all add: WriteInfoMsg_def Flush_def connDo_def nextSID_def
         newAdcPeer_def ok3 perform_inp split: option.splits)
    apply blast+
    done
qed

theorem protocol_features_witness:
  "inp (conns (hubRecv [Inr (HubPacket Supported_Cmd ''ADBASE ADTIGR'')]) 0)
      = Inr (HubPacket Supported_Cmd ''ADBASE ADTIGR'') # []
   \<and> UnmarshalSupported exX ''ADBASE ADTIGR'' = Inr exSup
   \<and> IsSet (Intersect hubFeatures exSup) FeaBASE
   \<and> IsSet (Intersect hubFeatures exSup) FeaTIGR
   \<and> list_all (\<lambda>r. r = None) (take 3 (wres (conns (hubRecv [Inr (HubPacket Supported_Cmd ''ADBASE ADTIGR'')]) 0)))
   \<and> fst (adcStageProtocol exX 0 (hubRecv [Inr (HubPacket Supported_Cmd ''ADBASE ADTIGR'')])) = Inr 0
   \<and> sid (adcPeers (snd (adcStageProtocol exX 0
        (hubRecv [Inr (HubPacket Supported_Cmd ''ADBASE ADTIGR'')]))) 0) = 1"
  using protocol_features [of "hubRecv [Inr (HubPacket Supported_Cmd ''ADBASE ADTIGR'')]" 0
      "''ADBASE ADTIGR''" "[]" exX exSup]
  by (simp add: hubRecv_def hub0_def conn0_def exX_def exSup_def IsSet_def Intersect_def
      hubFeatures_def FeaBASE_def FeaBAS0_def FeaTIGR_def FeaPING_def)

end
